theory Spec2Isabelle
  imports Complex_Main
begin

section \<open>Configuration\<close>

text \<open>The entries of the module-level \<open>CONFIG\<close> dictionary that the enrichment pipeline reads.\<close>

definition GOOGLE_BOOKS_API_URL :: string where
  "GOOGLE_BOOKS_API_URL = ''https://www.googleapis.com/books/v1/volumes''"

definition GOODREADS_URL :: string where
  "GOODREADS_URL = ''https://www.goodreads.com/search''"

definition WORLDCAT_URL :: string where
  "WORLDCAT_URL = ''https://www.worldcat.org/search''"

definition MAX_RESULTS_PER_SOURCE :: nat where
  "MAX_RESULTS_PER_SOURCE = 3"

definition RATE_LIMIT_DELAY :: nat where
  "RATE_LIMIT_DELAY = 1"

definition GOODREADS_table_rows :: string where
  "GOODREADS_table_rows = ''.tableList tr''"

definition GOODREADS_title :: string where
  "GOODREADS_title = ''.bookTitle''"

definition GOODREADS_author :: string where
  "GOODREADS_author = ''.authorName''"

definition GOODREADS_rating :: string where
  "GOODREADS_rating = ''.average''"

definition WORLDCAT_items :: string where
  "WORLDCAT_items = ''.bibliography''"

definition WORLDCAT_title :: string where
  "WORLDCAT_title = ''.title''"

definition WORLDCAT_author :: string where
  "WORLDCAT_author = ''.author''"

definition WORLDCAT_publisher :: string where
  "WORLDCAT_publisher = ''.publisher''"

section \<open>Data structures\<close>

text \<open>A Python float: a finite one, represented by the real number it denotes, an infinity
  or NaN.\<close>

datatype pyfloat = Finite real | PosInf | NegInf | NaN

text \<open>The dataclass \<open>BookData\<close>.\<close>

record BookData =
  book_name :: string
  isbn :: string
  authors :: string
  publisher :: string
  year :: string
  pages :: int
  rating :: pyfloat
  url :: string
  source :: string

text \<open>The dataclass constructor with its default field values.\<close>

definition BookData_init :: "string \<Rightarrow> string \<Rightarrow> BookData" where
  "BookData_init name ident =
     \<lparr>book_name = name, isbn = ident, authors = '''', publisher = '''', year = '''',
      pages = 0, rating = Finite 0, url = '''', source = ''google''\<rparr>"

text \<open>A choice of the prompt of \<open>get_book_data\<close>: the dictionary
  \<open>{'name': ..., 'value': ...}\<close>, whose value is a \<open>BookData\<close> or \<open>None\<close>.\<close>

type_synonym choice = "string \<times> BookData option"

text \<open>What \<open>get_book_data\<close> returns when it does not return \<open>None\<close>: a \<open>BookData\<close>, or a
  choice of its prompt.\<close>

datatype returned = Book BookData | Choice string "BookData option"

text \<open>The typed dictionary \<open>APIResponse\<close> and the parts of a volume that are read.
  A key that is absent from the JSON object is \<open>None\<close>.\<close>

record VolumeInfo =
  vi_title :: "string option"
  vi_authors :: "string list option"
  vi_publisher :: "string option"
  vi_publishedDate :: "string option"
  vi_pageCount :: "int option"
  vi_averageRating :: "pyfloat option"

record Volume =
  volumeInfo :: "VolumeInfo option"
  selfLink :: "string option"

record APIResponse =
  totalItems :: "int option"
  items :: "Volume list option"

text \<open>What BeautifulSoup hands to the scrapers: a tag with its text and attributes, a
  selected item with its text and its \<open>select_one\<close>, and a soup with its \<open>select\<close>.\<close>

record elem =
  elem_text :: string
  elem_attrs :: "string \<rightharpoonup> string"

record item =
  item_text :: string
  select_one :: "string \<Rightarrow> elem option"

type_synonym soup = "string \<Rightarrow> item list"

text \<open>Cells and tables of pandas. A row is the list of its named cells; a cell that is
  missing is the float NaN.\<close>

datatype cell = CStr string | CInt int | CFloat pyfloat

type_synonym row = "(string \<times> cell) list"

record DataFrame =
  columns :: "string list"
  rows :: "row list"

section \<open>Exceptions, events and the outside world\<close>

datatype exn =
    KeyError string
  | IndexError
  | ValueError
  | ClientError
  | DecodeError
  | FileNotFoundError
  | OSError
  | TypeError
  | ErrorReading string exn
  | ErrorWriting string exn

datatype BookSource = GoodreadsSource | WorldCatSource

datatype origin = Primary | Fallback BookSource

text \<open>The messages the program prints, by the place that prints them.\<close>

datatype diag =
    GoogleStatusError int
  | GoogleError string exn
  | GoodreadsError exn
  | WorldCatError exn
  | FoundInGoogle string
  | NoGoogleData string string
  | NoResultsFound string string
  | ErrorReadingFiles exn
  | NoNewBooks
  | ProcessingBook nat nat
  | AddedNewBooks nat
  | ErrorWritingOutput exn

text \<open>The observable effects, in the order they happen: a GET request with the adapter
  that issues it, a sleep of so many seconds, a prompt with its message and its choices, a
  printed message, a call of \<open>write_file\<close>.\<close>

datatype event =
    EGet origin string
  | ESleep nat
  | EPrompt string "choice list"
  | EPrint diag
  | EWrite string DataFrame

record response =
  status :: int
  resp_text :: "exn + string"
  resp_json :: "exn + APIResponse"

text \<open>The outside world as the program meets it: what a GET of a URL gives (\<open>Inl\<close> is a
  transport error), what the operator does at a prompt showing these choices
  (\<open>None\<close>: cancels; \<open>Some i\<close>: moves the cursor down \<open>i\<close> times and confirms), whether
  writing a table to a path fails, and what a write that fails leaves at the path, given
  what the path held. The same request has the same answer throughout a run and from one
  run to the next. The request headers are constant and are left out.\<close>

record world =
  session_get :: "string \<Rightarrow> exn + response"
  decide :: "string \<Rightarrow> choice list \<Rightarrow> nat option"
  write_error :: "string \<Rightarrow> DataFrame \<Rightarrow> exn option"
  write_leaves :: "string \<Rightarrow> DataFrame \<Rightarrow> (exn + DataFrame) option \<Rightarrow> (exn + DataFrame) option"

text \<open>The library functions the program calls and whose code is not part of it:
  \<open>str.strip\<close>, \<open>str.lower\<close>, \<open>quote_plus\<close>, the two regular-expression searches
  (\<open>published (\d{4})\<close>, group 1, and \<open>\b(19|20)\d{2}\b\<close>, group 0), \<open>float\<close> of a
  string (\<open>None\<close>: ValueError) and of an integer, \<open>str\<close> of an integer and of a float, and
  the HTML parser. Of pandas: the row that \<open>iterrows()\<close> yields for a row of a frame (the
  cells of the row, all converted to one type when every column of the frame is numeric),
  and what the reader for the suffix of a path makes of the file that the writer for that
  suffix makes of a table (the types of the columns are inferred anew from the text
  written).\<close>

record pylib =
  py_strip :: "string \<Rightarrow> string"
  py_lower :: "string \<Rightarrow> string"
  py_quote_plus :: "string \<Rightarrow> string"
  re_published :: "string \<Rightarrow> string option"
  re_year :: "string \<Rightarrow> string option"
  py_float :: "string \<Rightarrow> pyfloat option"
  py_float_of_int :: "int \<Rightarrow> pyfloat"
  py_str_int :: "int \<Rightarrow> string"
  py_str_float :: "pyfloat \<Rightarrow> string"
  html_parser :: "string \<Rightarrow> soup"
  pd_iterrows :: "DataFrame \<Rightarrow> row \<Rightarrow> row"
  pd_reread :: "string \<Rightarrow> DataFrame \<Rightarrow> exn + DataFrame"

text \<open>A computation gives its outcome (\<open>Inl\<close>: the exception raised) and the events it
  caused up to there.\<close>

type_synonym 'a io = "(exn + 'a) \<times> event list"

definition ret :: "'a \<Rightarrow> 'a io" where
  "ret x = (Inr x, [])"

definition throw :: "exn \<Rightarrow> 'a io" where
  "throw e = (Inl e, [])"

definition lift :: "exn + 'a \<Rightarrow> 'a io" where
  "lift r = (r, [])"

definition emit :: "event \<Rightarrow> unit io" where
  "emit ev = (Inr (), [ev])"

definition then_io :: "'a io \<Rightarrow> ('a \<Rightarrow> 'b io) \<Rightarrow> 'b io" where
  "then_io m f =
     (case m of
        (Inl e, t) \<Rightarrow> (Inl e, t)
      | (Inr x, t) \<Rightarrow> (case f x of (r, t') \<Rightarrow> (r, t @ t')))"

text \<open>\<open>try: m except Exception as e: h e\<close>\<close>

definition try_except :: "'a io \<Rightarrow> (exn \<Rightarrow> 'a io) \<Rightarrow> 'a io" where
  "try_except m h =
     (case m of
        (Inl e, t) \<Rightarrow> (case h e of (r, t') \<Rightarrow> (r, t @ t'))
      | (Inr x, t) \<Rightarrow> (Inr x, t))"

definition http_get :: "world \<Rightarrow> origin \<Rightarrow> string \<Rightarrow> response io" where
  "http_get W who u = (session_get W u, [EGet who u])"

definition sleep :: "nat \<Rightarrow> unit io" where
  "sleep n = emit (ESleep n)"

section \<open>Data sources\<close>

text \<open>One pass through the body of the loop of \<open>GoodreadsSource.search\<close>, for one
  selected table row: \<open>Inr None\<close> is \<open>continue\<close>, \<open>Inr (Some b)\<close> appends \<open>b\<close>. The keyword
  arguments of \<open>BookData\<close> are evaluated in order, so a rating that is no float raises
  before a missing \<open>href\<close>.\<close>

definition goodreads_rating :: "pylib \<Rightarrow> elem option \<Rightarrow> exn + pyfloat" where
  "goodreads_rating L rating_elem =
     (case rating_elem of
        None \<Rightarrow> Inr (Finite 0)
      | Some r \<Rightarrow> (case py_float L (py_strip L (elem_text r)) of
                    None \<Rightarrow> Inl ValueError
                  | Some x \<Rightarrow> Inr x))"

definition goodreads_item :: "pylib \<Rightarrow> string \<Rightarrow> item \<Rightarrow> exn + BookData option" where
  "goodreads_item L ident it =
     (case select_one it GOODREADS_title of
        None \<Rightarrow> Inr None
      | Some title_elem \<Rightarrow>
         (case select_one it GOODREADS_author of
            None \<Rightarrow> Inr None
          | Some author_elem \<Rightarrow>
             (let year_match = re_published L (py_lower L (item_text it));
                  rating_elem = select_one it GOODREADS_rating
              in case goodreads_rating L rating_elem of
                   Inl e \<Rightarrow> Inl e
                 | Inr rt \<Rightarrow>
                    (case elem_attrs title_elem ''href'' of
                       None \<Rightarrow> Inl (KeyError ''href'')
                     | Some href \<Rightarrow>
                        Inr (Some
                          ((BookData_init (py_strip L (elem_text title_elem)) ident)
                             \<lparr>authors := py_strip L (elem_text author_elem),
                              year := (case year_match of Some y \<Rightarrow> y | None \<Rightarrow> ''''),
                              rating := rt,
                              url := ''https://www.goodreads.com'' @ href,
                              source := ''goodreads''\<rparr>))))))"

text \<open>The loop itself; \<open>results\<close> is the list being appended to.\<close>

fun goodreads_loop :: "pylib \<Rightarrow> string \<Rightarrow> item list \<Rightarrow> BookData list \<Rightarrow> exn + BookData list" where
  "goodreads_loop L ident [] results = Inr results"
| "goodreads_loop L ident (it # rest) results =
     (case goodreads_item L ident it of
        Inl e \<Rightarrow> Inl e
      | Inr None \<Rightarrow> goodreads_loop L ident rest results
      | Inr (Some b) \<Rightarrow> goodreads_loop L ident rest (results @ [b]))"

text \<open>\<open>f"{CONFIG['GOODREADS_URL']}?q={quote_plus(f'{book_name} {isbn}')}"\<close>\<close>

definition goodreads_search_url :: "pylib \<Rightarrow> string \<Rightarrow> string \<Rightarrow> string" where
  "goodreads_search_url L name ident =
     GOODREADS_URL @ ''?q='' @ py_quote_plus L (name @ '' '' @ ident)"

definition GoodreadsSource_search :: "world \<Rightarrow> pylib \<Rightarrow> string \<Rightarrow> string \<Rightarrow> BookData list io" where
  "GoodreadsSource_search W L name ident =
     try_except
       (let search_url = goodreads_search_url L name ident
        in then_io (http_get W (Fallback GoodreadsSource) search_url) (\<lambda>resp.
             if status resp \<noteq> 200 then ret []
             else then_io (lift (resp_text resp)) (\<lambda>txt.
                    let soup = html_parser L txt
                    in lift (goodreads_loop L ident
                               (take MAX_RESULTS_PER_SOURCE (soup GOODREADS_table_rows)) []))))
       (\<lambda>e. then_io (emit (EPrint (GoodreadsError e))) (\<lambda>_. ret []))"

text \<open>One pass through the body of the loop of \<open>WorldCatSource.search\<close>: \<open>None\<close> is
  \<open>continue\<close>, \<open>Some b\<close> appends \<open>b\<close>.\<close>

definition worldcat_item :: "pylib \<Rightarrow> string \<Rightarrow> item \<Rightarrow> BookData option" where
  "worldcat_item L ident it =
     (let title_elem = select_one it WORLDCAT_title;
          author_elem = select_one it WORLDCAT_author;
          publisher_elem = select_one it WORLDCAT_publisher
      in case title_elem of
           None \<Rightarrow> None
         | Some t \<Rightarrow>
            (let book = (BookData_init (py_strip L (elem_text t)) ident)
                          \<lparr>authors := (case author_elem of
                                         Some a \<Rightarrow> py_strip L (elem_text a) | None \<Rightarrow> ''''),
                           publisher := (case publisher_elem of
                                           Some p \<Rightarrow> py_strip L (elem_text p) | None \<Rightarrow> ''''),
                           url := (case elem_attrs t ''href'' of
                                     None \<Rightarrow> ''''
                                   | Some href \<Rightarrow>
                                       if href = '''' then ''''
                                       else ''https://www.worldcat.org'' @ href),
                           source := ''worldcat''\<rparr>
             in Some (case publisher_elem of
                        None \<Rightarrow> book
                      | Some p \<Rightarrow> (case re_year L (elem_text p) of
                                    None \<Rightarrow> book
                                  | Some y \<Rightarrow> book\<lparr>year := y\<rparr>))))"

fun worldcat_loop :: "pylib \<Rightarrow> string \<Rightarrow> item list \<Rightarrow> BookData list \<Rightarrow> exn + BookData list" where
  "worldcat_loop L ident [] results = Inr results"
| "worldcat_loop L ident (it # rest) results =
     (case worldcat_item L ident it of
        None \<Rightarrow> worldcat_loop L ident rest results
      | Some b \<Rightarrow> worldcat_loop L ident rest (results @ [b]))"

text \<open>\<open>f"{CONFIG['WORLDCAT_URL']}?q={quote_plus(isbn)}"\<close>\<close>

definition worldcat_search_url :: "pylib \<Rightarrow> string \<Rightarrow> string" where
  "worldcat_search_url L ident = WORLDCAT_URL @ ''?q='' @ py_quote_plus L ident"

definition WorldCatSource_search :: "world \<Rightarrow> pylib \<Rightarrow> string \<Rightarrow> string \<Rightarrow> BookData list io" where
  "WorldCatSource_search W L name ident =
     try_except
       (let search_url = worldcat_search_url L ident
        in then_io (http_get W (Fallback WorldCatSource) search_url) (\<lambda>resp.
             if status resp \<noteq> 200 then ret []
             else then_io (lift (resp_text resp)) (\<lambda>txt.
                    let soup = html_parser L txt
                    in lift (worldcat_loop L ident
                               (take MAX_RESULTS_PER_SOURCE (soup WORLDCAT_items)) []))))
       (\<lambda>e. then_io (emit (EPrint (WorldCatError e))) (\<lambda>_. ret []))"

text \<open>The method \<open>search\<close>, dispatched on the class of the source.\<close>

fun search :: "BookSource \<Rightarrow> world \<Rightarrow> pylib \<Rightarrow> string \<Rightarrow> string \<Rightarrow> BookData list io" where
  "search GoodreadsSource W L name ident = GoodreadsSource_search W L name ident"
| "search WorldCatSource W L name ident = WorldCatSource_search W L name ident"

section \<open>Main enrichment class\<close>

text \<open>The attributes of a \<open>BookEnricher\<close> that its methods read. The HTTP session is the
  world's \<open>session_get\<close>.\<close>

record BookEnricher =
  api_key :: string
  base_url :: string
  sources :: "BookSource list"

definition BookEnricher_init :: "string \<Rightarrow> BookEnricher" where
  "BookEnricher_init key =
     \<lparr>api_key = key, base_url = GOOGLE_BOOKS_API_URL,
      sources = [GoodreadsSource, WorldCatSource]\<rparr>"

text \<open>\<open>sep.join(xs)\<close>\<close>

fun join :: "string \<Rightarrow> string list \<Rightarrow> string" where
  "join sep [] = []"
| "join sep [x] = x"
| "join sep (x # y # ys) = x @ sep @ join sep (y # ys)"

text \<open>\<open>data["items"][0]\<close> and \<open>data["items"][0]["volumeInfo"]\<close>, with the KeyError and
  IndexError of the subscripts.\<close>

definition first_item :: "APIResponse \<Rightarrow> exn + Volume" where
  "first_item data =
     (case items data of
        None \<Rightarrow> Inl (KeyError ''items'')
      | Some [] \<Rightarrow> Inl IndexError
      | Some (v # _) \<Rightarrow> Inr v)"

definition first_info :: "APIResponse \<Rightarrow> exn + VolumeInfo" where
  "first_info data =
     (case first_item data of
        Inl e \<Rightarrow> Inl e
      | Inr v \<Rightarrow> (case volumeInfo v of None \<Rightarrow> Inl (KeyError ''volumeInfo'') | Some i \<Rightarrow> Inr i))"

text \<open>\<open>f"{self.base_url}?q=isbn:{isbn}&key={self.api_key}"\<close>\<close>

definition google_books_url :: "BookEnricher \<Rightarrow> string \<Rightarrow> string" where
  "google_books_url self ident = base_url self @ ''?q=isbn:'' @ ident @ ''&key='' @ api_key self"

text \<open>The \<open>BookData\<close> that \<open>fetch_google_books\<close> builds from the first volume and its
  \<open>volumeInfo\<close>; each \<open>get\<close> has its default.\<close>

definition google_book :: "string \<Rightarrow> VolumeInfo \<Rightarrow> Volume \<Rightarrow> BookData" where
  "google_book ident info vol =
     \<lparr>book_name = (case vi_title info of Some t \<Rightarrow> t | None \<Rightarrow> ''''),
      isbn = ident,
      authors = join '', '' (case vi_authors info of Some as \<Rightarrow> as | None \<Rightarrow> []),
      publisher = (case vi_publisher info of Some p \<Rightarrow> p | None \<Rightarrow> ''''),
      year = take 4 (case vi_publishedDate info of Some d \<Rightarrow> d | None \<Rightarrow> ''''),
      pages = (case vi_pageCount info of Some n \<Rightarrow> n | None \<Rightarrow> 0),
      rating = (case vi_averageRating info of Some x \<Rightarrow> x | None \<Rightarrow> Finite 0),
      url = (case selfLink vol of Some l \<Rightarrow> l | None \<Rightarrow> ''''),
      source = ''google''\<rparr>"

definition fetch_google_books :: "BookEnricher \<Rightarrow> world \<Rightarrow> string \<Rightarrow> BookData option io" where
  "fetch_google_books self W ident =
     try_except
       (then_io (http_get W Primary (google_books_url self ident)) (\<lambda>r.
          if status r \<noteq> 200
          then then_io (emit (EPrint (GoogleStatusError (status r)))) (\<lambda>_. ret None)
          else then_io (lift (resp_json r)) (\<lambda>data.
                 if (case totalItems data of None \<Rightarrow> 0 | Some n \<Rightarrow> n) = 0 then ret None
                 else then_io (lift (first_info data)) (\<lambda>info.
                        then_io (lift (first_item data)) (\<lambda>vol.
                          ret (Some (google_book ident info vol)))))))
       (\<lambda>e. then_io (emit (EPrint (GoogleError ident e))) (\<lambda>_. ret None))"

text \<open>The loop \<open>for source in self.sources\<close> of \<open>get_book_data\<close>; \<open>all_results\<close> is the list
  being extended.\<close>

fun search_sources ::
  "world \<Rightarrow> pylib \<Rightarrow> BookSource list \<Rightarrow> string \<Rightarrow> string \<Rightarrow> BookData list \<Rightarrow> BookData list io" where
  "search_sources W L [] name ident all_results = ret all_results"
| "search_sources W L (src # rest) name ident all_results =
     then_io (search src W L name ident) (\<lambda>results.
       then_io (sleep RATE_LIMIT_DELAY) (\<lambda>_.
         search_sources W L rest name ident (all_results @ results)))"

text \<open>The name of a choice: \<open>f"{b.book_name} by {b.authors} ({b.year}) - from {b.source}"\<close>.\<close>

definition choice_name :: "BookData \<Rightarrow> string" where
  "choice_name b = book_name b @ '' by '' @ authors b @ '' ('' @ year b @ '') - from '' @ source b"

definition build_choices :: "BookData list \<Rightarrow> choice list" where
  "build_choices all_results =
     map (\<lambda>b. (choice_name b, Some b)) all_results @ [(''Skip this book'', None)]"

definition prompt_message :: "string \<Rightarrow> string" where
  "prompt_message name = ''Choose the correct book for '' @ [CHR 0x27] @ name @ [CHR 0x27]"

text \<open>\<open>inquirer.prompt\<close> with one \<open>inquirer.List\<close> question. The result is \<open>None\<close> when the
  operator cancels, and otherwise the answers, whose entry for the question is the value
  of the choice under the cursor; the cursor starts at the first choice and does not leave
  the list. inquirer takes a choice that is a pair \<open>(tag, value)\<close> apart and answers its
  value; any other choice is its own value. The choices here are dictionaries, so the
  answer is the chosen dictionary itself, for a candidate and for \<open>Skip this book\<close>
  alike.\<close>

definition inquirer_prompt :: "world \<Rightarrow> string \<Rightarrow> choice list \<Rightarrow> choice option io" where
  "inquirer_prompt W msg choices =
     (Inr (case decide W msg choices of
             None \<Rightarrow> None
           | Some i \<Rightarrow> if choices = [] then None
                       else Some (choices ! min i (length choices - 1))),
      [EPrompt msg choices])"

text \<open>\<open>get_book_data\<close>. Its last line, \<open>return answers['book'] if answers else None\<close>, returns
  the answer of the prompt as it is.\<close>

definition get_book_data ::
  "BookEnricher \<Rightarrow> world \<Rightarrow> pylib \<Rightarrow> string \<Rightarrow> string \<Rightarrow> returned option io" where
  "get_book_data self W L name ident =
     then_io (fetch_google_books self W ident) (\<lambda>book.
       case book of
         Some b \<Rightarrow> then_io (emit (EPrint (FoundInGoogle name))) (\<lambda>_. ret (Some (Book b)))
       | None \<Rightarrow>
           then_io (emit (EPrint (NoGoogleData name ident))) (\<lambda>_.
             then_io (search_sources W L (sources self) name ident []) (\<lambda>all_results.
               if all_results = []
               then then_io (emit (EPrint (NoResultsFound name ident))) (\<lambda>_. ret None)
               else then_io (inquirer_prompt W (prompt_message name)
                               (build_choices all_results)) (\<lambda>answers.
                      ret (case answers of
                             Some (n, v) \<Rightarrow> Some (Choice n v)
                           | None \<Rightarrow> None)))))"

section \<open>File handling\<close>

text \<open>A path holds nothing, or what the pandas reader for its suffix makes of the file
  there: a table, or an exception.\<close>

type_synonym filesystem = "string \<Rightarrow> (exn + DataFrame) option"

definition required_columns :: "string list" where
  "required_columns = [''book_name'', ''isbn'']"

definition read_file :: "filesystem \<Rightarrow> string \<Rightarrow> exn + DataFrame" where
  "read_file fs path =
     (case (case fs path of
              None \<Rightarrow> Inl FileNotFoundError
            | Some (Inl e) \<Rightarrow> Inl e
            | Some (Inr df) \<Rightarrow>
                if \<not> list_all (\<lambda>col. col \<in> set (columns df)) required_columns
                then Inl ValueError else Inr df) of
        Inl e \<Rightarrow> Inl (ErrorReading path e)
      | Inr df \<Rightarrow> Inr df)"

text \<open>\<open>write_file\<close>: after a write that succeeds the path holds what the reader makes of the
  file written, which need not be the table that was written; after a write that fails it
  holds what the failed write left there.\<close>

definition write_file ::
  "world \<Rightarrow> pylib \<Rightarrow> DataFrame \<Rightarrow> string \<Rightarrow> filesystem \<Rightarrow> (exn + unit) \<times> filesystem" where
  "write_file W L df path fs =
     (case write_error W path df of
        Some e \<Rightarrow> (Inl (ErrorWriting path e), fs(path := write_leaves W path df (fs path)))
      | None \<Rightarrow> (Inr (), fs(path := Some (pd_reread L path df))))"

definition path_exists :: "filesystem \<Rightarrow> string \<Rightarrow> bool" where
  "path_exists fs path = (fs path \<noteq> None)"

section \<open>Tables\<close>

text \<open>\<open>pd.DataFrame()\<close>\<close>

definition DataFrame_empty :: DataFrame where
  "DataFrame_empty = \<lparr>columns = [], rows = []\<rparr>"

definition cell_at :: "row \<Rightarrow> string \<Rightarrow> cell" where
  "cell_at r col = (case map_of r col of Some c \<Rightarrow> c | None \<Rightarrow> CFloat NaN)"

text \<open>\<open>str\<close> of a cell, which is also what \<open>astype(str)\<close> and an f-string make of it.\<close>

definition str_cell :: "pylib \<Rightarrow> cell \<Rightarrow> string" where
  "str_cell L c =
     (case c of
        CStr s \<Rightarrow> s
      | CInt i \<Rightarrow> py_str_int L i
      | CFloat x \<Rightarrow> py_str_float L x)"

text \<open>\<open>df[col].astype(str)\<close>: a KeyError when the frame has no such column.\<close>

definition column_astype_str :: "pylib \<Rightarrow> DataFrame \<Rightarrow> string \<Rightarrow> exn + string list" where
  "column_astype_str L df col =
     (if col \<in> set (columns df)
      then Inr (map (\<lambda>r. str_cell L (cell_at r col)) (rows df))
      else Inl (KeyError col))"

text \<open>\<open>df_in[~df_in['isbn'].astype(str).isin(df_out['isbn'].astype(str))]\<close>: the rows of
  \<open>df_in\<close> that the mask keeps, each with its index label, which is its position in \<open>df_in\<close>.\<close>

definition select_new_books :: "pylib \<Rightarrow> DataFrame \<Rightarrow> DataFrame \<Rightarrow> exn + (nat \<times> row) list" where
  "select_new_books L df_in df_out =
     (case column_astype_str L df_in ''isbn'' of
        Inl e \<Rightarrow> Inl e
      | Inr ins \<Rightarrow>
         (case column_astype_str L df_out ''isbn'' of
            Inl e \<Rightarrow> Inl e
          | Inr outs \<Rightarrow>
              Inr (map fst (filter (\<lambda>(_, s). \<not> (s \<in> set outs))
                                   (zip (enumerate 0 (rows df_in)) ins)))))"

text \<open>\<open>asdict(book)\<close>\<close>

definition asdict :: "BookData \<Rightarrow> row" where
  "asdict b =
     [(''book_name'', CStr (book_name b)), (''isbn'', CStr (isbn b)),
      (''authors'', CStr (authors b)), (''publisher'', CStr (publisher b)),
      (''year'', CStr (year b)), (''pages'', CInt (pages b)),
      (''rating'', CFloat (rating b)), (''url'', CStr (url b)),
      (''source'', CStr (source b))]"

definition BookData_fields :: "string list" where
  "BookData_fields =
     [''book_name'', ''isbn'', ''authors'', ''publisher'', ''year'', ''pages'', ''rating'',
      ''url'', ''source'']"

text \<open>\<open>pd.DataFrame(results)\<close> for a non-empty list of \<open>asdict\<close> dictionaries.\<close>

definition DataFrame_of_records :: "row list \<Rightarrow> DataFrame" where
  "DataFrame_of_records results = \<lparr>columns = BookData_fields, rows = results\<rparr>"

text \<open>\<open>pd.concat([df1, df2])\<close>: the columns of the first, then the new ones of the second;
  the rows of the first, then those of the second, each with a cell for every column, NaN
  where it had none. A column that holds no text and that holds a float, or that one of
  the frames lacks, is a float column: its integers become floats.\<close>

definition is_text :: "cell \<Rightarrow> bool" where
  "is_text c = (case c of CStr _ \<Rightarrow> True | _ \<Rightarrow> False)"

definition is_float :: "cell \<Rightarrow> bool" where
  "is_float c = (case c of CFloat _ \<Rightarrow> True | _ \<Rightarrow> False)"

definition astype_float :: "pylib \<Rightarrow> cell \<Rightarrow> cell" where
  "astype_float L c = (case c of CInt i \<Rightarrow> CFloat (py_float_of_int L i) | _ \<Rightarrow> c)"

definition float_column :: "DataFrame \<Rightarrow> DataFrame \<Rightarrow> string \<Rightarrow> bool" where
  "float_column df1 df2 c =
     (if list_ex (\<lambda>r. is_text (cell_at r c)) (rows df1 @ rows df2) then False
      else if c \<in> set (columns df1) \<and> c \<in> set (columns df2)
           then list_ex (\<lambda>r. is_float (cell_at r c)) (rows df1 @ rows df2)
           else True)"

definition pd_concat :: "pylib \<Rightarrow> DataFrame \<Rightarrow> DataFrame \<Rightarrow> DataFrame" where
  "pd_concat L df1 df2 =
     (let cols = columns df1 @ filter (\<lambda>c. c \<notin> set (columns df1)) (columns df2)
      in \<lparr>columns = cols,
          rows = map (\<lambda>r. map (\<lambda>c. (c, if float_column df1 df2 c
                                       then astype_float L (cell_at r c)
                                       else cell_at r c)) cols)
                     (rows df1 @ rows df2)\<rparr>)"

section \<open>Processing all books\<close>

text \<open>\<open>if book: results.append(asdict(book))\<close>: a \<open>BookData\<close> is true and so is a dictionary
  with entries; \<open>asdict\<close> of what is no dataclass instance raises TypeError.\<close>

definition append_result :: "returned option \<Rightarrow> row list \<Rightarrow> exn + row list" where
  "append_result book results =
     (case book of
        None \<Rightarrow> Inr results
      | Some (Book b) \<Rightarrow> Inr (results @ [asdict b])
      | Some (Choice n v) \<Rightarrow> Inl TypeError)"

text \<open>The loop \<open>for idx, row in new_books.iterrows()\<close> of \<open>process_books\<close>. \<open>new_books\<close> is a
  selection of the rows of \<open>df_in\<close> and has its column types, so \<open>row\<close> is what \<open>iterrows\<close>
  yields for the row in \<open>df_in\<close>; \<open>str(row['isbn'])\<close> is the text of its cell there. The book
  name is only ever formatted into text by \<open>get_book_data\<close> and the sources, so it is
  passed as that text. Nothing in the loop catches an exception.\<close>

fun process_rows ::
  "BookEnricher \<Rightarrow> world \<Rightarrow> pylib \<Rightarrow> nat \<Rightarrow> DataFrame \<Rightarrow> (nat \<times> row) list \<Rightarrow> row list \<Rightarrow>
   row list io" where
  "process_rows self W L n_total df_in [] results = ret results"
| "process_rows self W L n_total df_in ((idx, r) # rest) results =
     then_io (emit (EPrint (ProcessingBook (idx + 1) n_total))) (\<lambda>_.
       let row = pd_iterrows L df_in r
       in then_io (get_book_data self W L (str_cell L (cell_at row ''book_name''))
                     (str_cell L (cell_at row ''isbn''))) (\<lambda>book.
            then_io (lift (append_result book results)) (\<lambda>results'.
              then_io (sleep RATE_LIMIT_DELAY) (\<lambda>_.
                process_rows self W L n_total df_in rest results'))))"

text \<open>The two reads at the start of \<open>process_books\<close>, inside its \<open>try\<close>.\<close>

definition read_both :: "filesystem \<Rightarrow> string \<Rightarrow> string \<Rightarrow> exn + DataFrame \<times> DataFrame" where
  "read_both fs in_path out_path =
     (case read_file fs in_path of
        Inl e \<Rightarrow> Inl e
      | Inr df_in \<Rightarrow>
         (case (if path_exists fs out_path then read_file fs out_path
                else Inr DataFrame_empty) of
            Inl e \<Rightarrow> Inl e
          | Inr df_out \<Rightarrow> Inr (df_in, df_out)))"

definition process_books ::
  "BookEnricher \<Rightarrow> world \<Rightarrow> pylib \<Rightarrow> string \<Rightarrow> string \<Rightarrow> filesystem \<Rightarrow> unit io \<times> filesystem" where
  "process_books self W L in_path out_path fs =
     (case read_both fs in_path out_path of
        Inl e \<Rightarrow> (emit (EPrint (ErrorReadingFiles e)), fs)
      | Inr (df_in, df_out) \<Rightarrow>
         (case select_new_books L df_in df_out of
            Inl e \<Rightarrow> (throw e, fs)
          | Inr new_books \<Rightarrow>
             if new_books = [] then (emit (EPrint NoNewBooks), fs)
             else
               (case process_rows self W L (length new_books) df_in new_books [] of
                  (Inl e, t) \<Rightarrow> ((Inl e, t), fs)
                | (Inr results, t) \<Rightarrow>
                   if results \<noteq> []
                   then
                     (let df = pd_concat L df_out (DataFrame_of_records results)
                      in case write_file W L df out_path fs of
                           (Inl e, fs') \<Rightarrow>
                             ((Inr (), t @ [EWrite out_path df, EPrint (ErrorWritingOutput e)]),
                              fs')
                         | (Inr _, fs') \<Rightarrow>
                             ((Inr (), t @ [EWrite out_path df,
                                            EPrint (AddedNewBooks (length results))]), fs'))
                   else ((Inr (), t), fs))))"

section \<open>Notions used in the statements\<close>

text \<open>The events other than printed messages.\<close>

fun is_print :: "event \<Rightarrow> bool" where
  "is_print (EPrint _) = True"
| "is_print _ = False"

definition effects :: "event list \<Rightarrow> event list" where
  "effects t = filter (\<lambda>ev. \<not> is_print ev) t"

text \<open>What one pass of the Goodreads loop appends when it does not raise.\<close>

definition goodreads_kept :: "pylib \<Rightarrow> string \<Rightarrow> item \<Rightarrow> BookData option" where
  "goodreads_kept L ident it =
     (case goodreads_item L ident it of Inr (Some b) \<Rightarrow> Some b | _ \<Rightarrow> None)"

text \<open>The URL a fallback source requests.\<close>

fun source_url :: "pylib \<Rightarrow> BookSource \<Rightarrow> string \<Rightarrow> string \<Rightarrow> string" where
  "source_url L GoodreadsSource name ident = goodreads_search_url L name ident"
| "source_url L WorldCatSource name ident = worldcat_search_url L ident"

text \<open>The ways a request fails: a transport error, a status other than 200, a body that
  cannot be read as text (for the scrapers) or as JSON (for Google Books).\<close>

definition html_failure :: "exn + response \<Rightarrow> bool" where
  "html_failure r =
     (case r of Inl e \<Rightarrow> True | Inr resp \<Rightarrow> status resp \<noteq> 200 \<or> isl (resp_text resp))"

definition json_failure :: "exn + response \<Rightarrow> bool" where
  "json_failure r =
     (case r of Inl e \<Rightarrow> True | Inr resp \<Rightarrow> status resp \<noteq> 200 \<or> isl (resp_json resp))"

text \<open>The text of a row's identifier that the mask of \<open>process_books\<close> compares, and the
  two arguments \<open>process_books\<close> passes to \<open>get_book_data\<close> for a row of \<open>df_in\<close>.\<close>

definition mask_isbn :: "pylib \<Rightarrow> row \<Rightarrow> string" where
  "mask_isbn L r = str_cell L (cell_at r ''isbn'')"

definition query_name :: "pylib \<Rightarrow> DataFrame \<Rightarrow> row \<Rightarrow> string" where
  "query_name L df r = str_cell L (cell_at (pd_iterrows L df r) ''book_name'')"

definition query_isbn :: "pylib \<Rightarrow> DataFrame \<Rightarrow> row \<Rightarrow> string" where
  "query_isbn L df r = str_cell L (cell_at (pd_iterrows L df r) ''isbn'')"

text \<open>The book \<open>get_book_data\<close> returns for a row, if it returns one.\<close>

definition resolve :: "BookEnricher \<Rightarrow> world \<Rightarrow> pylib \<Rightarrow> DataFrame \<Rightarrow> row \<Rightarrow> BookData option" where
  "resolve self W L df r =
     (case fst (get_book_data self W L (query_name L df r) (query_isbn L df r)) of
        Inr (Some (Book b)) \<Rightarrow> Some b
      | _ \<Rightarrow> None)"

text \<open>The dictionaries of the books \<open>get_book_data\<close> returns for these rows.\<close>

definition new_records ::
  "BookEnricher \<Rightarrow> world \<Rightarrow> pylib \<Rightarrow> DataFrame \<Rightarrow> (nat \<times> row) list \<Rightarrow> row list" where
  "new_records self W L df new_books =
     List.map_filter (\<lambda>(idx, r). map_option asdict (resolve self W L df r)) new_books"

text \<open>The choice under the cursor after it was moved down \<open>i\<close> times in the prompt for these
  candidates.\<close>

definition chosen :: "BookData list \<Rightarrow> nat \<Rightarrow> returned" where
  "chosen cands i =
     (if i < length cands then Choice (choice_name (cands ! i)) (Some (cands ! i))
      else Choice ''Skip this book'' None)"

text \<open>The loop of \<open>process_books\<close> without its messages and its sleeps: the exception it
  raises, or the dictionaries it has appended to \<open>results\<close>.\<close>

fun appended ::
  "BookEnricher \<Rightarrow> world \<Rightarrow> pylib \<Rightarrow> DataFrame \<Rightarrow> (nat \<times> row) list \<Rightarrow> row list \<Rightarrow>
   exn + row list" where
  "appended self W L df [] results = Inr results"
| "appended self W L df ((idx, r) # rest) results =
     (case fst (get_book_data self W L (query_name L df r) (query_isbn L df r)) of
        Inl e \<Rightarrow> Inl e
      | Inr book \<Rightarrow>
         (case append_result book results of
            Inl e \<Rightarrow> Inl e
          | Inr results' \<Rightarrow> appended self W L df rest results'))"

text \<open>The files after a run whose loop raised this exception or ended with these
  dictionaries: unchanged when it raised or appended nothing, and else as \<open>write_file\<close> of
  the ledger with the dictionaries leaves them.\<close>

definition merged ::
  "world \<Rightarrow> pylib \<Rightarrow> string \<Rightarrow> DataFrame \<Rightarrow> exn + row list \<Rightarrow> filesystem \<Rightarrow> filesystem" where
  "merged W L out_path df_out outcome fs =
     (case outcome of
        Inl e \<Rightarrow> fs
      | Inr recs \<Rightarrow>
          if recs = [] then fs
          else snd (write_file W L (pd_concat L df_out (DataFrame_of_records recs)) out_path fs))"


text \<open>A table is kept at a path when writing it there succeeds and the file written reads
  back as a table with the required columns and, row by row, the identifier texts of the
  table written.\<close>

definition kept :: "world \<Rightarrow> pylib \<Rightarrow> string \<Rightarrow> DataFrame \<Rightarrow> bool" where
  "kept W L path df =
     (write_error W path df = None \<and>
      (case pd_reread L path df of
         Inl e \<Rightarrow> False
       | Inr df' \<Rightarrow> list_all (\<lambda>col. col \<in> set (columns df')) required_columns
                    \<and> map (mask_isbn L) (rows df') = map (mask_isbn L) (rows df)))"

text \<open>The table a run of \<open>process_books\<close> on these pending rows writes, if it writes one,
  is kept.\<close>

definition write_kept ::
  "BookEnricher \<Rightarrow> world \<Rightarrow> pylib \<Rightarrow> string \<Rightarrow> DataFrame \<Rightarrow> DataFrame \<Rightarrow> (nat \<times> row) list \<Rightarrow> bool"
  where
  "write_kept self W L out_path df_in df_out new_books =
     (case fst (process_rows self W L (length new_books) df_in new_books []) of
        Inl e \<Rightarrow> True
      | Inr recs \<Rightarrow>
          if recs = [] then True
          else kept W L out_path (pd_concat L df_out (DataFrame_of_records recs)))"

text \<open>The decimal notation of an integer, which is its \<open>str\<close>.\<close>

definition digit :: "nat \<Rightarrow> char" where
  "digit d = ''0123456789'' ! d"

function decimal :: "nat \<Rightarrow> string" where
  "decimal n = (if n < 10 then [digit n] else decimal (n div 10) @ [digit (n mod 10)])"
  by pat_completeness auto
termination
  by (relation "measure id") auto

declare decimal.simps [simp del]

definition str_int :: "int \<Rightarrow> string" where
  "str_int i = (if i < 0 then ''-'' @ decimal (nat (- i)) else decimal (nat i))"

section \<open>A concrete world\<close>

text \<open>Library functions, a world and files to run the program on. \<open>quote_plus\<close> puts \<open>+\<close> for
  a space, which is all it changes in the texts used here; \<open>strip\<close> is the identity, as no
  text used here has white space at its ends; the regular expressions find no year, whatever
  \<open>lower\<close> gives, which is taken to be the text itself; no text is a float; the integers
  used are small enough to be floats exactly, and the finite floats used are whole numbers.
  The input tables hold text cells only, so
  \<open>iterrows\<close> yields their rows as they are. Google Books knows the identifiers 222 and
  0451524934 and nothing else; Goodreads finds one row for the queries \<open>B 111\<close> and \<open>C 333\<close>
  and nothing else; WorldCat finds one item for the identifier 333 and nothing else; the
  operator confirms the first choice; writes succeed. For the identifier 444 every request
  fails in its own way: the connection to Goodreads breaks, and the bodies that WorldCat
  and Google Books send cannot be read.\<close>

text \<open>What reading back makes of a cell that was written, for the cells that occur here
  and in columns that hold nothing but such cells: a text of digits is read as the integer
  it denotes, an empty text as a missing cell, and any other cell as it was.\<close>

definition demo_reread_cell :: "cell \<Rightarrow> cell" where
  "demo_reread_cell c =
     (if c = CStr ''0451524934'' then CInt 451524934
      else if c = CStr ''222'' then CInt 222
      else if c = CStr ''1949'' then CInt 1949
      else if c = CStr ''1984'' then CInt 1984
      else if c = CStr '''' then CFloat NaN
      else c)"

definition demo_reread :: "DataFrame \<Rightarrow> DataFrame" where
  "demo_reread df = df\<lparr>rows := map (map (\<lambda>(c, v). (c, demo_reread_cell v))) (rows df)\<rparr>"

definition demo_row :: item where
  "demo_row =
     \<lparr>item_text = ''Title B by Author B'',
      select_one = (\<lambda>sel.
        if sel = GOODREADS_title
        then Some \<lparr>elem_text = ''Title B'', elem_attrs = [''href'' \<mapsto> ''/book/show/1'']\<rparr>
        else if sel = GOODREADS_author
        then Some \<lparr>elem_text = ''Author B'', elem_attrs = Map.empty\<rparr>
        else None)\<rparr>"

definition demo_item :: item where
  "demo_item =
     \<lparr>item_text = ''Title C Author C'',
      select_one = (\<lambda>sel.
        if sel = WORLDCAT_title
        then Some \<lparr>elem_text = ''Title C'', elem_attrs = [''href'' \<mapsto> ''/oclc/1'']\<rparr>
        else if sel = WORLDCAT_author
        then Some \<lparr>elem_text = ''Author C'', elem_attrs = Map.empty\<rparr>
        else None)\<rparr>"

definition demo_lib :: pylib where
  "demo_lib =
     \<lparr>py_strip = (\<lambda>s. s), py_lower = (\<lambda>s. s),
      py_quote_plus = map (\<lambda>c. if c = CHR '' '' then CHR ''+'' else c),
      re_published = (\<lambda>s. None), re_year = (\<lambda>s. None), py_float = (\<lambda>s. None),
      py_float_of_int = (\<lambda>i. Finite (of_int i)),
      py_str_int = str_int,
      py_str_float = (\<lambda>x. case x of
                          Finite r \<Rightarrow> str_int \<lfloor>r\<rfloor> @ ''.0''
                        | PosInf \<Rightarrow> ''inf'' | NegInf \<Rightarrow> ''-inf'' | NaN \<Rightarrow> ''nan''),
      html_parser = (\<lambda>body sel.
        if body = ''one row'' \<and> sel = GOODREADS_table_rows then [demo_row]
        else if body = ''one item'' \<and> sel = WORLDCAT_items then [demo_item]
        else []),
      pd_iterrows = (\<lambda>df r. r),
      pd_reread = (\<lambda>path df. Inr (demo_reread df))\<rparr>"

definition demo_self :: BookEnricher where
  "demo_self = BookEnricher_init ''key''"

definition demo_volume :: Volume where
  "demo_volume =
     \<lparr>volumeInfo = Some \<lparr>vi_title = Some ''1984'', vi_authors = Some [''George Orwell''],
                          vi_publisher = None, vi_publishedDate = Some ''1949-06-08'',
                          vi_pageCount = Some 328, vi_averageRating = None\<rparr>,
      selfLink = None\<rparr>"

definition demo_world :: world where
  "demo_world =
     \<lparr>session_get = (\<lambda>u.
        if u = google_books_url demo_self ''222''
           \<or> u = google_books_url demo_self ''0451524934''
        then Inr \<lparr>status = 200, resp_text = Inr '''',
                  resp_json = Inr \<lparr>totalItems = Some 1, items = Some [demo_volume]\<rparr>\<rparr>
        else if u = goodreads_search_url demo_lib ''B'' ''111''
                \<or> u = goodreads_search_url demo_lib ''C'' ''333''
        then Inr \<lparr>status = 200, resp_text = Inr ''one row'', resp_json = Inl DecodeError\<rparr>
        else if u = worldcat_search_url demo_lib ''333''
        then Inr \<lparr>status = 200, resp_text = Inr ''one item'', resp_json = Inl DecodeError\<rparr>
        else if u = goodreads_search_url demo_lib ''D'' ''444''
        then Inl ClientError
        else if u = worldcat_search_url demo_lib ''444''
                \<or> u = google_books_url demo_self ''444''
        then Inr \<lparr>status = 200, resp_text = Inl DecodeError, resp_json = Inl DecodeError\<rparr>
        else Inr \<lparr>status = 404, resp_text = Inr '''', resp_json = Inl DecodeError\<rparr>),
      decide = (\<lambda>msg choices. Some 0),
      write_error = (\<lambda>path df. None),
      write_leaves = (\<lambda>path df old. old)\<rparr>"

definition demo_book_B :: BookData where
  "demo_book_B =
     \<lparr>book_name = ''Title B'', isbn = ''111'', authors = ''Author B'', publisher = '''',
      year = '''', pages = 0, rating = Finite 0, url = ''https://www.goodreads.com/book/show/1'',
      source = ''goodreads''\<rparr>"

definition demo_book_C_goodreads :: BookData where
  "demo_book_C_goodreads = demo_book_B\<lparr>isbn := ''333''\<rparr>"

definition demo_book_C_worldcat :: BookData where
  "demo_book_C_worldcat =
     \<lparr>book_name = ''Title C'', isbn = ''333'', authors = ''Author C'', publisher = [],
      year = [], pages = 0, rating = Finite 0, url = ''https://www.worldcat.org/oclc/1'',
      source = ''worldcat''\<rparr>"

definition demo_book_1984 :: BookData where
  "demo_book_1984 =
     \<lparr>book_name = ''1984'', isbn = ''222'', authors = ''George Orwell'', publisher = '''',
      year = ''1949'', pages = 328, rating = Finite 0, url = '''', source = ''google''\<rparr>"

definition row_A :: row where
  "row_A = [(''book_name'', CStr ''A''), (''isbn'', CStr ''111'')]"

definition row_B :: row where
  "row_B = [(''book_name'', CStr ''B''), (''isbn'', CStr ''111'')]"

definition demo_input :: DataFrame where
  "demo_input = \<lparr>columns = [''book_name'', ''isbn''], rows = [row_A, row_B]\<rparr>"

definition demo_ledger :: DataFrame where
  "demo_ledger = \<lparr>columns = [''book_name'', ''isbn''], rows = []\<rparr>"

text \<open>An input file and an output file that has its header and no rows yet.\<close>

definition demo_fs :: filesystem where
  "demo_fs =
     (\<lambda>path. if path = ''books.csv'' then Some (Inr demo_input)
             else if path = ''enriched_books.csv'' then Some (Inr demo_ledger)
             else None)"

text \<open>The same input file on a first run, when there is no output file.\<close>

definition first_run_fs :: filesystem where
  "first_run_fs = (\<lambda>path. if path = ''books.csv'' then Some (Inr demo_input) else None)"

text \<open>An input file with the row named A alone.\<close>

definition demo_input_A :: DataFrame where
  "demo_input_A = \<lparr>columns = [''book_name'', ''isbn''], rows = [row_A]\<rparr>"

definition demo_fs_A :: filesystem where
  "demo_fs_A =
     (\<lambda>path. if path = ''books.csv'' then Some (Inr demo_input_A)
             else if path = ''enriched_books.csv'' then Some (Inr demo_ledger)
             else None)"



text \<open>An input file with a row that Google Books resolves, after a row that nothing
  resolves, and the ledger after a run on it.\<close>

definition row_E :: row where
  "row_E = [(''book_name'', CStr ''E''), (''isbn'', CStr ''222'')]"

definition demo_input_AE :: DataFrame where
  "demo_input_AE = \<lparr>columns = [''book_name'', ''isbn''], rows = [row_A, row_E]\<rparr>"

definition demo_fs_AE :: filesystem where
  "demo_fs_AE =
     (\<lambda>path. if path = ''books.csv'' then Some (Inr demo_input_AE)
             else if path = ''enriched_books.csv'' then Some (Inr demo_ledger)
             else None)"

definition demo_ledger_AE :: DataFrame where
  "demo_ledger_AE =
     \<lparr>columns = BookData_fields,
      rows = [[(''book_name'', CInt 1984), (''isbn'', CInt 222),
               (''authors'', CStr ''George Orwell''), (''publisher'', CFloat NaN),
               (''year'', CInt 1949), (''pages'', CFloat (Finite 328)),
               (''rating'', CFloat (Finite 0)), (''url'', CFloat NaN),
               (''source'', CStr ''google'')]]\<rparr>"

text \<open>An input file whose identifiers are texts, one of them with a leading zero and one
  that is no number, as a CSV file with these three lines gives them; the book Google Books
  has for the second; the ledger after one run and after two.\<close>

definition row_plain :: row where
  "row_plain = [(''book_name'', CStr ''P''), (''isbn'', CStr ''451524934'')]"

definition row_zero :: row where
  "row_zero = [(''book_name'', CStr ''Q''), (''isbn'', CStr ''0451524934'')]"

definition row_text :: row where
  "row_text = [(''book_name'', CStr ''R''), (''isbn'', CStr ''080442957X'')]"

definition zero_input :: DataFrame where
  "zero_input = \<lparr>columns = [''book_name'', ''isbn''], rows = [row_plain, row_zero, row_text]\<rparr>"

definition zero_fs :: filesystem where
  "zero_fs =
     (\<lambda>path. if path = ''books.csv'' then Some (Inr zero_input)
             else if path = ''enriched_books.csv'' then Some (Inr demo_ledger)
             else None)"


definition zero_row_read :: row where
  "zero_row_read =
     [(''book_name'', CInt 1984), (''isbn'', CInt 451524934),
      (''authors'', CStr ''George Orwell''), (''publisher'', CFloat NaN),
      (''year'', CInt 1949), (''pages'', CFloat (Finite 328)),
      (''rating'', CFloat (Finite 0)), (''url'', CFloat NaN), (''source'', CStr ''google'')]"

definition zero_ledger_1 :: DataFrame where
  "zero_ledger_1 = \<lparr>columns = BookData_fields, rows = [zero_row_read]\<rparr>"

definition zero_ledger_2 :: DataFrame where
  "zero_ledger_2 = \<lparr>columns = BookData_fields, rows = [zero_row_read, zero_row_read]\<rparr>"

definition zero_fs_1 :: filesystem where
  "zero_fs_1 =
     (\<lambda>path. if path = ''books.csv'' then Some (Inr zero_input)
             else if path = ''enriched_books.csv'' then Some (Inr zero_ledger_1)
             else None)"

definition zero_fs_2 :: filesystem where
  "zero_fs_2 =
     (\<lambda>path. if path = ''books.csv'' then Some (Inr zero_input)
             else if path = ''enriched_books.csv'' then Some (Inr zero_ledger_2)
             else None)"

text \<open>The input row without the leading zero alone, with the ledger after that run.\<close>

definition plain_input :: DataFrame where
  "plain_input = \<lparr>columns = [''book_name'', ''isbn''], rows = [row_plain]\<rparr>"

definition plain_fs :: filesystem where
  "plain_fs =
     (\<lambda>path. if path = ''books.csv'' then Some (Inr plain_input)
             else if path = ''enriched_books.csv'' then Some (Inr zero_ledger_1)
             else None)"
section \<open>Properties of the model\<close>

lemma then_io_Inr: "then_io (Inr x, t) f = (fst (f x), t @ snd (f x))"
  by (simp add: then_io_def split: prod.splits)

lemma then_io_Inl: "then_io (Inl e, t) f = (Inl e, t)"
  by (simp add: then_io_def)

lemma try_except_Inr: "try_except (Inr x, t) h = (Inr x, t)"
  by (simp add: try_except_def)

lemma try_except_Inl: "try_except (Inl e, t) h = (fst (h e), t @ snd (h e))"
  by (simp add: try_except_def split: prod.splits)

lemma fst_then_io: "fst (then_io m f) = (case fst m of Inl e \<Rightarrow> Inl e | Inr x \<Rightarrow> fst (f x))"
  by (simp add: then_io_def split: prod.splits sum.splits)

lemma snd_then_io:
  "snd (then_io m f) = (case fst m of Inl e \<Rightarrow> snd m | Inr x \<Rightarrow> snd m @ snd (f x))"
  by (simp add: then_io_def split: prod.splits sum.splits)

lemma fst_try_except: "fst (try_except m h) = (case fst m of Inl e \<Rightarrow> fst (h e) | Inr x \<Rightarrow> Inr x)"
  by (simp add: try_except_def split: prod.splits sum.splits)

lemma snd_try_except:
  "snd (try_except m h) = (case fst m of Inl e \<Rightarrow> snd m @ snd (h e) | Inr x \<Rightarrow> snd m)"
  by (simp add: try_except_def split: prod.splits sum.splits)

lemmas io_proj = fst_then_io snd_then_io fst_try_except snd_try_except

lemmas io_simps = then_io_Inr then_io_Inl try_except_Inr try_except_Inl ret_def throw_def
  lift_def emit_def http_get_def sleep_def

lemma goodreads_item_isbn:
  "goodreads_item L ident it = Inr (Some b) \<Longrightarrow> isbn b = ident \<and> source b = ''goodreads''"
  by (auto simp: goodreads_item_def BookData_init_def Let_def split: option.splits sum.splits)

lemma goodreads_kept_isbn:
  "goodreads_kept L ident it = Some b \<Longrightarrow> isbn b = ident \<and> source b = ''goodreads''"
  using goodreads_item_isbn [of L ident it b]
  by (simp add: goodreads_kept_def split: sum.splits option.splits)

lemma worldcat_item_isbn:
  "worldcat_item L ident it = Some b \<Longrightarrow> isbn b = ident \<and> source b = ''worldcat''"
  by (auto simp: worldcat_item_def BookData_init_def Let_def split: option.splits sum.splits)

lemma worldcat_loop_eq:
  "worldcat_loop L ident its acc = Inr (acc @ List.map_filter (worldcat_item L ident) its)"
proof (induction its arbitrary: acc)
  case Nil
  show ?case by (simp add: List.map_filter_simps)
next
  case (Cons it rest)
  show ?case
  proof (cases "worldcat_item L ident it")
    case None
    then show ?thesis using Cons by (simp add: List.map_filter_simps)
  next
    case (Some b)
    then show ?thesis using Cons by (simp add: List.map_filter_simps)
  qed
qed

lemma goodreads_loop_eq:
  "goodreads_loop L ident its acc = Inr res \<Longrightarrow>
   res = acc @ List.map_filter (goodreads_kept L ident) its"
proof (induction its arbitrary: acc)
  case Nil
  then show ?case by (simp add: List.map_filter_simps)
next
  case (Cons it rest)
  show ?case
  proof (cases "goodreads_item L ident it")
    case (Inl e)
    then show ?thesis using Cons.prems by simp
  next
    case (Inr ob)
    show ?thesis
    proof (cases ob)
      case None
      then have "goodreads_loop L ident rest acc = Inr res"
        using Inr Cons.prems by simp
      then have "res = acc @ List.map_filter (goodreads_kept L ident) rest"
        by (rule Cons.IH)
      moreover have "goodreads_kept L ident it = None"
        using None Inr by (simp add: goodreads_kept_def)
      ultimately show ?thesis by (simp add: List.map_filter_simps)
    next
      case (Some b)
      then have "goodreads_loop L ident rest (acc @ [b]) = Inr res"
        using Inr Cons.prems by simp
      then have "res = (acc @ [b]) @ List.map_filter (goodreads_kept L ident) rest"
        by (rule Cons.IH)
      moreover have "goodreads_kept L ident it = Some b"
        using Some Inr by (simp add: goodreads_kept_def)
      ultimately show ?thesis by (simp add: List.map_filter_simps)
    qed
  qed
qed

lemma length_map_filter_le: "length (List.map_filter f xs) \<le> length xs"
  by (simp add: List.map_filter_def)

lemma set_map_filter: "set (List.map_filter f xs) = {y. \<exists>x\<in>set xs. f x = Some y}"
  by (induction xs) (auto simp: List.map_filter_simps split: option.splits)

lemma GoodreadsSource_search_unfold:
  "GoodreadsSource_search W L name ident =
     (let u = goodreads_search_url L name ident; g = EGet (Fallback GoodreadsSource) u
      in case session_get W u of
           Inl e \<Rightarrow> (Inr [], [g, EPrint (GoodreadsError e)])
         | Inr resp \<Rightarrow>
             if status resp \<noteq> 200 then (Inr [], [g])
             else (case resp_text resp of
                     Inl e \<Rightarrow> (Inr [], [g, EPrint (GoodreadsError e)])
                   | Inr body \<Rightarrow>
                      (case goodreads_loop L ident
                              (take MAX_RESULTS_PER_SOURCE (html_parser L body GOODREADS_table_rows)) [] of
                         Inl e \<Rightarrow> (Inr [], [g, EPrint (GoodreadsError e)])
                       | Inr xs \<Rightarrow> (Inr xs, [g]))))"
  by (simp add: GoodreadsSource_search_def Let_def io_simps split: sum.splits)

lemma WorldCatSource_search_unfold:
  "WorldCatSource_search W L name ident =
     (let u = worldcat_search_url L ident; g = EGet (Fallback WorldCatSource) u
      in case session_get W u of
           Inl e \<Rightarrow> (Inr [], [g, EPrint (WorldCatError e)])
         | Inr resp \<Rightarrow>
             if status resp \<noteq> 200 then (Inr [], [g])
             else (case resp_text resp of
                     Inl e \<Rightarrow> (Inr [], [g, EPrint (WorldCatError e)])
                   | Inr body \<Rightarrow>
                      (Inr (List.map_filter (worldcat_item L ident)
                              (take MAX_RESULTS_PER_SOURCE (html_parser L body WORLDCAT_items))), [g])))"
  by (simp add: WorldCatSource_search_def Let_def io_simps worldcat_loop_eq split: sum.splits)

lemma effects_simps [simp]:
  "effects [] = []"
  "effects (EPrint d # t) = effects t"
  "effects (EGet who u # t) = EGet who u # effects t"
  "effects (ESleep n # t) = ESleep n # effects t"
  "effects (EPrompt m ns # t) = EPrompt m ns # effects t"
  "effects (EWrite p df # t) = EWrite p df # effects t"
  "effects (t @ t') = effects t @ effects t'"
  by (simp_all add: effects_def)

lemma GoodreadsSource_search_value:
  "\<exists>xs. fst (GoodreadsSource_search W L name ident) = Inr xs
     \<and> length xs \<le> MAX_RESULTS_PER_SOURCE
     \<and> (\<forall>b\<in>set xs. isbn b = ident \<and> source b = ''goodreads'')"
proof (cases "fst (GoodreadsSource_search W L name ident) = Inr []")
  case True
  then show ?thesis by simp
next
  case False
  then obtain resp body xs where
    loop: "goodreads_loop L ident
             (take MAX_RESULTS_PER_SOURCE (html_parser L body GOODREADS_table_rows)) [] = Inr xs"
    and v: "fst (GoodreadsSource_search W L name ident) = Inr xs"
    by (auto simp: GoodreadsSource_search_unfold Let_def split: sum.splits if_splits)
  have xs: "xs = List.map_filter (goodreads_kept L ident)
                   (take MAX_RESULTS_PER_SOURCE (html_parser L body GOODREADS_table_rows))"
    using goodreads_loop_eq [OF loop] by simp
  have "length xs \<le> length (take MAX_RESULTS_PER_SOURCE (html_parser L body GOODREADS_table_rows))"
    unfolding xs by (rule length_map_filter_le)
  then have "length xs \<le> MAX_RESULTS_PER_SOURCE" by simp
  moreover have "\<forall>b\<in>set xs. isbn b = ident \<and> source b = ''goodreads''"
    unfolding xs set_map_filter using goodreads_kept_isbn by blast
  ultimately show ?thesis using v by simp
qed

lemma GoodreadsSource_search_effects:
  "effects (snd (GoodreadsSource_search W L name ident)) =
     [EGet (Fallback GoodreadsSource) (goodreads_search_url L name ident)]"
  by (simp add: GoodreadsSource_search_unfold Let_def split: sum.splits)

lemma WorldCatSource_search_value:
  "\<exists>xs. fst (WorldCatSource_search W L name ident) = Inr xs
     \<and> length xs \<le> MAX_RESULTS_PER_SOURCE
     \<and> (\<forall>b\<in>set xs. isbn b = ident \<and> source b = ''worldcat'')"
proof (cases "fst (WorldCatSource_search W L name ident) = Inr []")
  case True
  then show ?thesis by simp
next
  case False
  then obtain body where
    v: "fst (WorldCatSource_search W L name ident) =
          Inr (List.map_filter (worldcat_item L ident)
                 (take MAX_RESULTS_PER_SOURCE (html_parser L body WORLDCAT_items)))"
    by (auto simp: WorldCatSource_search_unfold Let_def split: sum.splits if_splits)
  let ?xs = "List.map_filter (worldcat_item L ident)
                 (take MAX_RESULTS_PER_SOURCE (html_parser L body WORLDCAT_items))"
  have "length ?xs \<le> length (take MAX_RESULTS_PER_SOURCE (html_parser L body WORLDCAT_items))"
    by (rule length_map_filter_le)
  then have "length ?xs \<le> MAX_RESULTS_PER_SOURCE" by simp
  moreover have "\<forall>b\<in>set ?xs. isbn b = ident \<and> source b = ''worldcat''"
    unfolding set_map_filter using worldcat_item_isbn by blast
  ultimately show ?thesis using v by simp
qed

lemma WorldCatSource_search_effects:
  "effects (snd (WorldCatSource_search W L name ident)) =
     [EGet (Fallback WorldCatSource) (worldcat_search_url L ident)]"
  by (simp add: WorldCatSource_search_unfold Let_def split: sum.splits)

lemma fetch_google_books_unfold:
  "fetch_google_books self W ident =
     (let u = google_books_url self ident; g = EGet Primary u
      in case session_get W u of
           Inl e \<Rightarrow> (Inr None, [g, EPrint (GoogleError ident e)])
         | Inr r \<Rightarrow>
             if status r \<noteq> 200 then (Inr None, [g, EPrint (GoogleStatusError (status r))])
             else (case resp_json r of
                     Inl e \<Rightarrow> (Inr None, [g, EPrint (GoogleError ident e)])
                   | Inr data \<Rightarrow>
                      if (case totalItems data of None \<Rightarrow> 0 | Some n \<Rightarrow> n) = 0
                      then (Inr None, [g])
                      else (case first_info data of
                              Inl e \<Rightarrow> (Inr None, [g, EPrint (GoogleError ident e)])
                            | Inr info \<Rightarrow>
                               (case first_item data of
                                  Inl e \<Rightarrow> (Inr None, [g, EPrint (GoogleError ident e)])
                                | Inr vol \<Rightarrow> (Inr (Some (google_book ident info vol)), [g])))))"
  by (simp add: fetch_google_books_def Let_def io_simps split: sum.splits)

lemma fetch_google_books_value:
  "\<exists>r. fst (fetch_google_books self W ident) = Inr r
     \<and> (\<forall>b. r = Some b \<longrightarrow> isbn b = ident \<and> source b = ''google'')"
  by (simp add: fetch_google_books_unfold Let_def google_book_def split: sum.splits)

lemma fetch_google_books_effects:
  "effects (snd (fetch_google_books self W ident)) = [EGet Primary (google_books_url self ident)]"
  by (simp add: fetch_google_books_unfold Let_def split: sum.splits)

lemma fetch_google_books_hit_events:
  "fst (fetch_google_books self W ident) = Inr (Some b) \<Longrightarrow>
   snd (fetch_google_books self W ident) = [EGet Primary (google_books_url self ident)]"
  by (auto simp: fetch_google_books_unfold Let_def split: sum.splits if_splits)

lemma search_value:
  "\<exists>xs. fst (search src W L name ident) = Inr xs
     \<and> length xs \<le> MAX_RESULTS_PER_SOURCE \<and> (\<forall>b\<in>set xs. isbn b = ident)"
proof (cases src)
  case GoodreadsSource
  then show ?thesis using GoodreadsSource_search_value [of W L name ident] by auto
next
  case WorldCatSource
  then show ?thesis using WorldCatSource_search_value [of W L name ident] by auto
qed

lemma search_sources_fst:
  "fst (search_sources W L srcs name ident acc) =
     Inr (acc @ concat (map (\<lambda>s. projr (fst (search s W L name ident))) srcs))"
proof (induction srcs arbitrary: acc)
  case Nil
  show ?case by (simp add: ret_def)
next
  case (Cons s rest)
  obtain xs where xs: "fst (search s W L name ident) = Inr xs"
    using search_value by blast
  show ?case
    by (simp add: fst_then_io xs sleep_def emit_def Cons.IH)
qed

lemma search_sources_snd:
  "snd (search_sources W L srcs name ident acc) =
     concat (map (\<lambda>s. snd (search s W L name ident) @ [ESleep RATE_LIMIT_DELAY]) srcs)"
proof (induction srcs arbitrary: acc)
  case Nil
  show ?case by (simp add: ret_def)
next
  case (Cons s rest)
  obtain xs where xs: "fst (search s W L name ident) = Inr xs"
    using search_value by blast
  show ?case
    by (simp add: snd_then_io fst_then_io xs sleep_def emit_def Cons.IH)
qed


lemma read_file_columns:
  "read_file fs path = Inr df \<Longrightarrow>
   fs path = Some (Inr df) \<and> ''book_name'' \<in> set (columns df) \<and> ''isbn'' \<in> set (columns df)"
  by (auto simp: read_file_def required_columns_def split: option.splits sum.splits if_splits)

lemma read_file_intro:
  "fs path = Some (Inr df) \<Longrightarrow> ''book_name'' \<in> set (columns df) \<Longrightarrow>
   ''isbn'' \<in> set (columns df) \<Longrightarrow> read_file fs path = Inr df"
  by (simp add: read_file_def required_columns_def)

lemma GoodreadsSource_search_failure:
  "html_failure (session_get W (goodreads_search_url L name ident)) \<Longrightarrow>
   fst (GoodreadsSource_search W L name ident) = Inr []"
  by (auto simp: GoodreadsSource_search_unfold Let_def html_failure_def isl_def
           split: sum.splits)

lemma WorldCatSource_search_failure:
  "html_failure (session_get W (worldcat_search_url L ident)) \<Longrightarrow>
   fst (WorldCatSource_search W L name ident) = Inr []"
  by (auto simp: WorldCatSource_search_unfold Let_def html_failure_def isl_def
           split: sum.splits)

lemma fetch_google_books_failure:
  "json_failure (session_get W (google_books_url self ident)) \<Longrightarrow>
   fst (fetch_google_books self W ident) = Inr None"
  by (auto simp: fetch_google_books_unfold Let_def json_failure_def isl_def
           split: sum.splits)

lemma search_effects:
  "effects (snd (search src W L name ident)) = [EGet (Fallback src) (source_url L src name ident)]"
  by (cases src) (simp_all add: GoodreadsSource_search_effects WorldCatSource_search_effects)

lemma search_sources_effects:
  "effects (snd (search_sources W L srcs name ident acc)) =
     concat (map (\<lambda>src. [EGet (Fallback src) (source_url L src name ident),
                         ESleep RATE_LIMIT_DELAY]) srcs)"
  unfolding search_sources_snd
  by (induction srcs) (simp_all add: search_effects)

lemma adapters_ignore_decide:
  "fetch_google_books self (W\<lparr>decide := d\<rparr>) ident = fetch_google_books self W ident"
  "GoodreadsSource_search (W\<lparr>decide := d\<rparr>) L name ident = GoodreadsSource_search W L name ident"
  "WorldCatSource_search (W\<lparr>decide := d\<rparr>) L name ident = WorldCatSource_search W L name ident"
  by (simp_all add: fetch_google_books_def GoodreadsSource_search_def WorldCatSource_search_def
        http_get_def)

lemma search_ignores_decide:
  "search src (W\<lparr>decide := d\<rparr>) L name ident = search src W L name ident"
  by (cases src) (simp_all add: adapters_ignore_decide)

lemma search_sources_ignores_decide:
  "search_sources (W\<lparr>decide := d\<rparr>) L srcs name ident acc =
   search_sources W L srcs name ident acc"
  by (induction srcs arbitrary: acc) (simp_all add: search_ignores_decide)

lemma get_book_data_hit:
  "fst (fetch_google_books self W ident) = Inr (Some b) \<Longrightarrow>
   get_book_data self W L name ident =
     (Inr (Some (Book b)), snd (fetch_google_books self W ident) @ [EPrint (FoundInGoogle name)])"
  by (simp add: get_book_data_def prod_eq_iff fst_then_io snd_then_io emit_def ret_def)

lemma build_choices_nth:
  "build_choices cs ! min i (length (build_choices cs) - 1) =
     (if i < length cs then (choice_name (cs ! i), Some (cs ! i)) else (''Skip this book'', None))"
  by (simp add: build_choices_def nth_append min_def)

lemma get_book_data_miss:
  "fst (fetch_google_books self W ident) = Inr None \<Longrightarrow>
   fst (search_sources W L (sources self) name ident []) = Inr cands \<Longrightarrow>
   get_book_data self W L name ident =
     (if cands = []
      then (Inr None,
            snd (fetch_google_books self W ident) @ [EPrint (NoGoogleData name ident)] @
            snd (search_sources W L (sources self) name ident []) @
            [EPrint (NoResultsFound name ident)])
      else (Inr (map_option (chosen cands)
                   (decide W (prompt_message name) (build_choices cands))),
            snd (fetch_google_books self W ident) @ [EPrint (NoGoogleData name ident)] @
            snd (search_sources W L (sources self) name ident []) @
            [EPrompt (prompt_message name) (build_choices cands)]))"
proof -
  have ne: "build_choices cs \<noteq> []" for cs
    by (simp add: build_choices_def)
  assume "fst (fetch_google_books self W ident) = Inr None"
    and "fst (search_sources W L (sources self) name ident []) = Inr cands"
  then show ?thesis
    unfolding get_book_data_def inquirer_prompt_def build_choices_nth
    by (simp add: prod_eq_iff fst_then_io snd_then_io emit_def ret_def ne chosen_def
          split: option.splits)
qed

lemma search_sources_isbn:
  assumes "fst (search_sources W L srcs name ident []) = Inr cands" and "b \<in> set cands"
  shows "isbn b = ident"
proof -
  from assms obtain s where "b \<in> set (projr (fst (search s W L name ident)))"
    by (auto simp: search_sources_fst)
  moreover obtain xs where "fst (search s W L name ident) = Inr xs" "\<forall>b\<in>set xs. isbn b = ident"
    using search_value by blast
  ultimately show ?thesis by simp
qed

lemma get_book_data_cases:
  "(\<exists>b. fst (fetch_google_books self W ident) = Inr (Some b)
        \<and> fst (get_book_data self W L name ident) = Inr (Some (Book b)))
   \<or> (fst (fetch_google_books self W ident) = Inr None
      \<and> (fst (get_book_data self W L name ident) = Inr None
         \<or> (\<exists>cands i. fst (search_sources W L (sources self) name ident []) = Inr cands
                \<and> cands \<noteq> []
                \<and> fst (get_book_data self W L name ident) = Inr (Some (chosen cands i)))))"
proof -
  obtain g where g: "fst (fetch_google_books self W ident) = Inr g"
    using fetch_google_books_value by blast
  show ?thesis
  proof (cases g)
    case (Some b)
    then show ?thesis using g get_book_data_hit [of self W ident b L name] by simp
  next
    case None
    obtain cands where c: "fst (search_sources W L (sources self) name ident []) = Inr cands"
      by (simp add: search_sources_fst)
    show ?thesis
      using get_book_data_miss [of self W ident L name cands] g None c
      by (cases "decide W (prompt_message name) (build_choices cands)") auto
  qed
qed

lemma get_book_data_Book:
  "fst (get_book_data self W L name ident) = Inr (Some (Book b)) \<longleftrightarrow>
   fst (fetch_google_books self W ident) = Inr (Some b)"
  using get_book_data_cases [of self W ident L name]
  by (auto simp: chosen_def split: if_splits)

lemma get_book_data_value:
  "\<exists>r. fst (get_book_data self W L name ident) = Inr r
       \<and> (\<forall>b. r = Some (Book b) \<longrightarrow> isbn b = ident)
       \<and> (\<forall>n b. r = Some (Choice n (Some b)) \<longrightarrow> isbn b = ident)"
proof -
  have gi: "isbn b = ident" if "fst (fetch_google_books self W ident) = Inr (Some b)" for b
    using fetch_google_books_value [of self W ident] that by auto
  have ci: "isbn (cands ! i) = ident"
    if "fst (search_sources W L (sources self) name ident []) = Inr cands" "i < length cands"
    for cands i
    using search_sources_isbn [OF that(1)] that(2) by simp
  show ?thesis
    using get_book_data_cases [of self W ident L name] gi ci
    by (auto simp: chosen_def split: if_splits)
qed

lemma resolve_Book:
  "resolve self W L df r = Some b \<longleftrightarrow>
   fst (get_book_data self W L (query_name L df r) (query_isbn L df r)) = Inr (Some (Book b))"
  by (auto simp: resolve_def split: sum.splits option.splits returned.splits)

lemma resolve_google:
  "resolve self W L df r = Some b \<longleftrightarrow>
   fst (fetch_google_books self W (query_isbn L df r)) = Inr (Some b)"
  by (simp add: resolve_Book get_book_data_Book)

lemma resolve_isbn: "resolve self W L df r = Some b \<Longrightarrow> isbn b = query_isbn L df r"
  using fetch_google_books_value [of self W "query_isbn L df r"]
  by (auto simp: resolve_google)

lemma process_rows_fst:
  "fst (process_rows self W L n df new_books acc) = appended self W L df new_books acc"
proof (induction new_books arbitrary: acc)
  case Nil
  show ?case by (simp add: ret_def)
next
  case (Cons p rest)
  obtain idx r where p: "p = (idx, r)" by (cases p)
  show ?case
    by (simp add: p fst_then_io emit_def sleep_def lift_def Let_def Cons.IH
          query_name_def query_isbn_def split: sum.splits)
qed

lemma appended_append:
  "appended self W L df (xs @ ys) acc =
     (case appended self W L df xs acc of
        Inl e \<Rightarrow> Inl e
      | Inr acc' \<Rightarrow> appended self W L df ys acc')"
  by (induction xs arbitrary: acc) (auto split: sum.splits)

lemma appended_skip:
  "fst (get_book_data self W L (query_name L df r) (query_isbn L df r)) = Inr None \<Longrightarrow>
   appended self W L df ((idx, r) # rest) acc = appended self W L df rest acc"
  by (simp add: append_result_def)

lemma appended_without_skipped:
  "fst (get_book_data self W L (query_name L df r) (query_isbn L df r)) = Inr None \<Longrightarrow>
   appended self W L df (filter (\<lambda>(j, r'). r' \<noteq> r) nb) acc = appended self W L df nb acc"
  by (induction nb arbitrary: acc) (auto simp: append_result_def split: sum.splits)

lemma new_records_Cons:
  "new_records self W L df ((idx, r) # rest) =
     (case resolve self W L df r of None \<Rightarrow> [] | Some b \<Rightarrow> [asdict b])
     @ new_records self W L df rest"
  by (simp add: new_records_def List.map_filter_simps split: option.splits)

lemma appended_Inr:
  "appended self W L df nb acc = Inr recs \<Longrightarrow> recs = acc @ new_records self W L df nb"
proof (induction nb arbitrary: acc)
  case Nil
  then show ?case by (simp add: new_records_def List.map_filter_simps)
next
  case (Cons p rest)
  obtain idx r where p: "p = (idx, r)" by (cases p)
  obtain v where v: "fst (get_book_data self W L (query_name L df r) (query_isbn L df r)) = Inr v"
    using get_book_data_value by blast
  show ?case
  proof (cases v)
    case None
    then have "resolve self W L df r = None" using v by (simp add: resolve_def)
    moreover have "appended self W L df rest acc = Inr recs"
      using Cons.prems v None by (simp add: p append_result_def)
    ultimately show ?thesis using Cons.IH by (simp add: p new_records_Cons)
  next
    case (Some a)
    show ?thesis
    proof (cases a)
      case (Book b)
      then have "resolve self W L df r = Some b" using v Some by (simp add: resolve_def)
      moreover have "appended self W L df rest (acc @ [asdict b]) = Inr recs"
        using Cons.prems v Some Book by (simp add: p append_result_def)
      ultimately show ?thesis using Cons.IH [of "acc @ [asdict b]"] by (simp add: p new_records_Cons)
    next
      case (Choice n c)
      then show ?thesis using Cons.prems v Some by (simp add: p append_result_def)
    qed
  qed
qed

lemma new_records_empty_iff:
  "new_records self W L df nb = [] \<longleftrightarrow> (\<forall>(idx, r)\<in>set nb. resolve self W L df r = None)"
  by (induction nb) (auto simp: new_records_def List.map_filter_simps split: option.splits)

lemma set_new_records:
  "set (new_records self W L df nb) =
     {asdict b |b idx r. (idx, r) \<in> set nb \<and> resolve self W L df r = Some b}"
  by (induction nb) (auto simp: new_records_def List.map_filter_simps split: option.splits)

lemma mask_isbn_asdict: "mask_isbn L (asdict b) = isbn b"
  by (simp add: mask_isbn_def asdict_def cell_at_def str_cell_def)

lemma mask_filter:
  "map fst (filter (\<lambda>(_, s). P s) (zip (enumerate n xs) (map f xs))) =
     filter (\<lambda>(i, r). P (f r)) (enumerate n xs)"
  by (induction xs arbitrary: n) auto

lemma select_new_books_eq:
  "''isbn'' \<in> set (columns df_in) \<Longrightarrow> ''isbn'' \<in> set (columns df_out) \<Longrightarrow>
   select_new_books L df_in df_out =
     Inr (filter (\<lambda>(idx, r). mask_isbn L r \<notin> set (map (mask_isbn L) (rows df_out)))
            (enumerate 0 (rows df_in)))"
  by (simp add: select_new_books_def column_astype_str_def mask_filter mask_isbn_def)

lemma select_new_books_KeyError:
  "''isbn'' \<in> set (columns df_in) \<Longrightarrow> ''isbn'' \<notin> set (columns df_out) \<Longrightarrow>
   select_new_books L df_in df_out = Inl (KeyError ''isbn'')"
  by (simp add: select_new_books_def column_astype_str_def)

lemma process_rows_pair:
  "\<exists>t. process_rows self W L n df nb acc = (appended self W L df nb acc, t)"
  using process_rows_fst [of self W L n df nb acc]
  by (cases "process_rows self W L n df nb acc") simp

lemma process_books_read_error:
  "read_both fs in_path out_path = Inl e \<Longrightarrow>
   process_books self W L in_path out_path fs = ((Inr (), [EPrint (ErrorReadingFiles e)]), fs)"
  by (simp add: process_books_def emit_def)

lemma process_books_select_error:
  "read_both fs in_path out_path = Inr (df_in, df_out) \<Longrightarrow>
   select_new_books L df_in df_out = Inl e \<Longrightarrow>
   process_books self W L in_path out_path fs = ((Inl e, []), fs)"
  by (simp add: process_books_def throw_def)


lemma process_books_snd:
  assumes "read_both fs in_path out_path = Inr (df_in, df_out)"
    and "select_new_books L df_in df_out = Inr nb"
  shows "snd (process_books self W L in_path out_path fs) =
           merged W L out_path df_out (appended self W L df_in nb []) fs"
proof (cases "nb = []")
  case True
  then show ?thesis
    using assms by (simp add: process_books_def merged_def)
next
  case False
  obtain t where t: "process_rows self W L (length nb) df_in nb [] =
                       (appended self W L df_in nb [], t)"
    using process_rows_pair [of self W L "length nb" df_in nb "[]"] by auto
  show ?thesis
    using assms False t
    by (cases "appended self W L df_in nb []")
       (simp_all add: process_books_def merged_def write_file_def Let_def split: option.splits)
qed

lemma process_books_fst:
  assumes "read_both fs in_path out_path = Inr (df_in, df_out)"
    and "select_new_books L df_in df_out = Inr nb"
  shows "fst (fst (process_books self W L in_path out_path fs)) =
           (case appended self W L df_in nb [] of Inl e \<Rightarrow> Inl e | Inr recs \<Rightarrow> Inr ())"
proof (cases "nb = []")
  case True
  then show ?thesis
    using assms by (simp add: process_books_def emit_def)
next
  case False
  obtain t where t: "process_rows self W L (length nb) df_in nb [] =
                       (appended self W L df_in nb [], t)"
    using process_rows_pair [of self W L "length nb" df_in nb "[]"] by auto
  show ?thesis
    using assms False t
    by (cases "appended self W L df_in nb []")
       (simp_all add: process_books_def write_file_def Let_def split: option.splits)
qed

lemma read_both_cases:
  assumes "read_both fs in_path out_path = Inr (df_in, df_out)"
  shows "read_file fs in_path = Inr df_in \<and>
         (if path_exists fs out_path then read_file fs out_path = Inr df_out
          else df_out = DataFrame_empty)"
  using assms by (auto simp: read_both_def split: sum.splits if_splits)

lemma select_ok_ledger_read:
  assumes rb: "read_both fs in_path out_path = Inr (df_in, df_out)"
    and sel: "select_new_books L df_in df_out = Inr nb"
  shows "read_file fs in_path = Inr df_in \<and> read_file fs out_path = Inr df_out
       \<and> nb = filter (\<lambda>(idx, r). mask_isbn L r \<notin> set (map (mask_isbn L) (rows df_out)))
                (enumerate 0 (rows df_in))"
proof -
  have i: "read_file fs in_path = Inr df_in" using read_both_cases [OF rb] by simp
  then have ci: "''isbn'' \<in> set (columns df_in)" using read_file_columns by blast
  have "path_exists fs out_path"
  proof (rule ccontr)
    assume "\<not> path_exists fs out_path"
    then have "df_out = DataFrame_empty" using read_both_cases [OF rb] by simp
    then have "select_new_books L df_in df_out = Inl (KeyError ''isbn'')"
      using ci by (simp add: select_new_books_KeyError DataFrame_empty_def)
    then show False using sel by simp
  qed
  then have o: "read_file fs out_path = Inr df_out" using read_both_cases [OF rb] by simp
  then have co: "''isbn'' \<in> set (columns df_out)" using read_file_columns by blast
  show ?thesis using i o sel select_new_books_eq [OF ci co, of L] by simp
qed

lemma select_same_frame:
  assumes "select_new_books L df df = Inr nb"
  shows "nb = []"
proof -
  have c: "''isbn'' \<in> set (columns df)"
    using assms by (auto simp: select_new_books_def column_astype_str_def split: if_splits)
  have "filter (\<lambda>(idx, r). mask_isbn L r \<notin> set (map (mask_isbn L) (rows df)))
          (enumerate 0 (rows df)) = []"
    by (auto simp: filter_empty_conv in_set_enumerate_eq)
  then show ?thesis using assms select_new_books_eq [OF c c, of L] by simp
qed

lemma process_books_output_absent:
  assumes "read_file fs in_path = Inr df_in" and "\<not> path_exists fs out_path"
  shows "process_books self W L in_path out_path fs = ((Inl (KeyError ''isbn''), []), fs)"
proof -
  have rb: "read_both fs in_path out_path = Inr (df_in, DataFrame_empty)"
    using assms by (simp add: read_both_def)
  have "''isbn'' \<in> set (columns df_in)"
    using assms(1) read_file_columns by blast
  then have "select_new_books L df_in DataFrame_empty = Inl (KeyError ''isbn'')"
    by (rule select_new_books_KeyError) (simp add: DataFrame_empty_def)
  then show ?thesis
    by (rule process_books_select_error [OF rb])
qed

lemma cell_at_filled: "c \<in> set cols \<Longrightarrow> cell_at (map (\<lambda>c. (c, f c)) cols) c = f c"
  by (simp add: cell_at_def map_of_map_restrict)

lemma mask_isbn_pd_concat:
  assumes c: "''isbn'' \<in> set (columns df)"
    and t: "list_ex (\<lambda>r. is_text (cell_at r ''isbn'')) recs"
  shows "map (mask_isbn L) (rows (pd_concat L df (DataFrame_of_records recs))) =
           map (mask_isbn L) (rows df) @ map (mask_isbn L) recs"
proof -
  have nf: "\<not> float_column df (DataFrame_of_records recs) ''isbn''"
    using t by (simp add: float_column_def DataFrame_of_records_def)
  let ?cols = "columns df @ filter (\<lambda>c. c \<notin> set (columns df)) (columns (DataFrame_of_records recs))"
  have i: "''isbn'' \<in> set ?cols" using c by simp
  have "mask_isbn L (map (\<lambda>c. (c, if float_column df (DataFrame_of_records recs) c
                                   then astype_float L (cell_at r c) else cell_at r c)) ?cols)
        = mask_isbn L r" for r
    unfolding mask_isbn_def cell_at_filled [OF i] using nf by simp
  then show ?thesis
    by (simp add: pd_concat_def Let_def DataFrame_of_records_def)
qed

lemma columns_pd_concat: "c \<in> set (columns df) \<Longrightarrow> c \<in> set (columns (pd_concat L df df2))"
  by (simp add: pd_concat_def Let_def)

lemma is_text_asdict: "is_text (cell_at (asdict b) ''isbn'')"
  by (simp add: is_text_def cell_at_def asdict_def)

lemma new_records_text:
  "new_records self W L df nb \<noteq> [] \<Longrightarrow>
   list_ex (\<lambda>r. is_text (cell_at r ''isbn'')) (new_records self W L df nb)"
proof -
  assume ne: "new_records self W L df nb \<noteq> []"
  then obtain x where x: "x \<in> set (new_records self W L df nb)"
    by (cases "new_records self W L df nb") auto
  then obtain b where "x = asdict b" by (auto simp: set_new_records)
  then show ?thesis using x is_text_asdict by (auto simp: list_ex_iff)
qed

lemma mask_isbn_new_records:
  "set (map (mask_isbn L) (new_records self W L df nb)) =
     {query_isbn L df r |idx r. (idx, r) \<in> set nb \<and> resolve self W L df r \<noteq> None}"
proof -
  have eq: "mask_isbn L (asdict b) = query_isbn L df r" if "resolve self W L df r = Some b" for b r
    using resolve_isbn [OF that] by (simp add: mask_isbn_asdict)
  show ?thesis
  proof (intro set_eqI iffI)
    fix x assume "x \<in> set (map (mask_isbn L) (new_records self W L df nb))"
    then obtain b idx r where "x = mask_isbn L (asdict b)" "(idx, r) \<in> set nb"
      "resolve self W L df r = Some b"
      by (auto simp: set_new_records)
    then show "x \<in> {query_isbn L df r |idx r. (idx, r) \<in> set nb \<and> resolve self W L df r \<noteq> None}"
      using eq by force
  next
    fix x assume "x \<in> {query_isbn L df r |idx r. (idx, r) \<in> set nb \<and> resolve self W L df r \<noteq> None}"
    then obtain idx r b where x: "x = query_isbn L df r" "(idx, r) \<in> set nb"
      "resolve self W L df r = Some b"
      by auto
    then have "asdict b \<in> set (new_records self W L df nb)"
      by (auto simp: set_new_records)
    then have "mask_isbn L (asdict b) \<in> set (map (mask_isbn L) (new_records self W L df nb))"
      by simp
    then show "x \<in> set (map (mask_isbn L) (new_records self W L df nb))"
      using eq [OF x(3)] x(1) by simp
  qed
qed

lemma appended_TypeError:
  assumes "(idx, r) \<in> set nb"
    and "fst (get_book_data self W L (query_name L df r) (query_isbn L df r)) = Inr (Some (Choice n v))"
  shows "appended self W L df nb acc = Inl TypeError"
  using assms(1)
proof (induction nb arbitrary: acc)
  case Nil
  then show ?case by simp
next
  case (Cons p rest)
  obtain j r' where p: "p = (j, r')" by (cases p)
  obtain a where a: "fst (get_book_data self W L (query_name L df r') (query_isbn L df r')) = Inr a"
    using get_book_data_value by blast
  show ?case
  proof (cases "append_result a acc")
    case (Inl e)
    then have "e = TypeError"
      by (auto simp: append_result_def split: option.splits returned.splits)
    then show ?thesis using a Inl by (simp add: p)
  next
    case (Inr acc')
    then have "r' \<noteq> r"
      using a assms(2) by (auto simp: append_result_def)
    then have "(idx, r) \<in> set rest" using Cons.prems p by auto
    then show ?thesis using Cons.IH a Inr by (simp add: p)
  qed
qed

lemma appended_raises_TypeError:
  "appended self W L df nb acc = Inl e \<Longrightarrow> e = TypeError"
proof (induction nb arbitrary: acc)
  case Nil
  then show ?case by simp
next
  case (Cons p rest)
  obtain j r' where p: "p = (j, r')" by (cases p)
  obtain a where a: "fst (get_book_data self W L (query_name L df r') (query_isbn L df r')) = Inr a"
    using get_book_data_value by blast
  show ?case
    using Cons.prems Cons.IH a
    by (cases "append_result a acc")
       (auto simp: p append_result_def split: option.splits returned.splits)
qed

lemma merged_cases:
  assumes ro: "read_file fs out_path = Inr df_out"
    and wk: "case outcome of Inl e \<Rightarrow> True
             | Inr recs \<Rightarrow> if recs = [] then True
                           else kept W L out_path (pd_concat L df_out (DataFrame_of_records recs))"
    and t: "\<And>recs. outcome = Inr recs \<Longrightarrow> recs \<noteq> [] \<Longrightarrow>
              list_ex (\<lambda>r. is_text (cell_at r ''isbn'')) recs"
  shows "merged W L out_path df_out outcome fs = fs
       \<or> (\<exists>recs df'. outcome = Inr recs \<and> recs \<noteq> []
            \<and> merged W L out_path df_out outcome fs = fs(out_path := Some (Inr df'))
            \<and> read_file (fs(out_path := Some (Inr df'))) out_path = Inr df'
            \<and> map (mask_isbn L) (rows df') =
                map (mask_isbn L) (rows df_out) @ map (mask_isbn L) recs)"
proof (cases outcome)
  case (Inl e)
  then show ?thesis by (simp add: merged_def)
next
  case (Inr recs)
  show ?thesis
  proof (cases "recs = []")
    case True
    then show ?thesis using Inr by (simp add: merged_def)
  next
    case False
    let ?df = "pd_concat L df_out (DataFrame_of_records recs)"
    have k: "kept W L out_path ?df" using wk Inr False by simp
    then obtain df' where w: "write_error W out_path ?df = None"
      and rr: "pd_reread L out_path ?df = Inr df'"
      and cols: "list_all (\<lambda>col. col \<in> set (columns df')) required_columns"
      and ids: "map (mask_isbn L) (rows df') = map (mask_isbn L) (rows ?df)"
      by (auto simp: kept_def split: sum.splits)
    have co: "''isbn'' \<in> set (columns df_out)" using ro read_file_columns by blast
    have ids': "map (mask_isbn L) (rows df') =
                  map (mask_isbn L) (rows df_out) @ map (mask_isbn L) recs"
      unfolding ids by (rule mask_isbn_pd_concat [OF co t [OF Inr False]])
    have m: "merged W L out_path df_out outcome fs = fs(out_path := Some (Inr df'))"
      using Inr False w rr by (simp add: merged_def write_file_def)
    have r: "read_file (fs(out_path := Some (Inr df'))) out_path = Inr df'"
      using cols by (simp add: read_file_def)
    show ?thesis using Inr False m r ids' by blast
  qed
qed

text \<open>The files after a run whose table, if it writes one, is kept.\<close>

lemma process_books_after:
  assumes rb: "read_both fs in_path out_path = Inr (df_in, df_out)"
    and sel: "select_new_books L df_in df_out = Inr nb"
    and wk: "write_kept self W L out_path df_in df_out nb"
  shows "snd (process_books self W L in_path out_path fs) = fs
       \<or> (\<exists>df'. new_records self W L df_in nb \<noteq> []
            \<and> appended self W L df_in nb [] = Inr (new_records self W L df_in nb)
            \<and> snd (process_books self W L in_path out_path fs) = fs(out_path := Some (Inr df'))
            \<and> read_both (fs(out_path := Some (Inr df'))) in_path out_path = Inr (df_in, df')
            \<and> map (mask_isbn L) (rows df') =
                map (mask_isbn L) (rows df_out)
                @ map (mask_isbn L) (new_records self W L df_in nb))"
proof -
  note ok = select_ok_ledger_read [OF rb sel]
  have ro: "read_file fs out_path = Inr df_out" using ok by simp
  have t: "list_ex (\<lambda>r. is_text (cell_at r ''isbn'')) recs"
    if "appended self W L df_in nb [] = Inr recs" "recs \<noteq> []" for recs
    using appended_Inr [OF that(1)] that(2) new_records_text [of self W L df_in nb] by simp
  have wk': "case appended self W L df_in nb [] of Inl e \<Rightarrow> True
             | Inr recs \<Rightarrow> if recs = [] then True
                           else kept W L out_path (pd_concat L df_out (DataFrame_of_records recs))"
    using wk by (simp add: write_kept_def process_rows_fst)
  have fs': "snd (process_books self W L in_path out_path fs) =
               merged W L out_path df_out (appended self W L df_in nb []) fs"
    by (rule process_books_snd [OF rb sel])
  from merged_cases [OF ro wk' t]
  show ?thesis
  proof
    assume "merged W L out_path df_out (appended self W L df_in nb []) fs = fs"
    then show ?thesis using fs' by simp
  next
    assume "\<exists>recs df'. appended self W L df_in nb [] = Inr recs \<and> recs \<noteq> []
            \<and> merged W L out_path df_out (appended self W L df_in nb []) fs =
                fs(out_path := Some (Inr df'))
            \<and> read_file (fs(out_path := Some (Inr df'))) out_path = Inr df'
            \<and> map (mask_isbn L) (rows df') =
                map (mask_isbn L) (rows df_out) @ map (mask_isbn L) recs"
    then obtain recs df' where a: "appended self W L df_in nb [] = Inr recs" and ne: "recs \<noteq> []"
      and m: "merged W L out_path df_out (appended self W L df_in nb []) fs =
                fs(out_path := Some (Inr df'))"
      and r: "read_file (fs(out_path := Some (Inr df'))) out_path = Inr df'"
      and ids: "map (mask_isbn L) (rows df') =
                  map (mask_isbn L) (rows df_out) @ map (mask_isbn L) recs"
      by blast
    have recs: "recs = new_records self W L df_in nb" using appended_Inr [OF a] by simp
    have io: "in_path \<noteq> out_path"
    proof
      assume e: "in_path = out_path"
      have "read_file fs in_path = Inr df_in" "read_file fs out_path = Inr df_out"
        using ok by simp_all
      then have "df_in = df_out" using e by simp
      then have "nb = []" using sel select_same_frame by blast
      then show False using a ne by simp
    qed
    have ri: "read_file (fs(out_path := Some (Inr df'))) in_path = Inr df_in"
      using ok io by (simp add: read_file_def)
    have "read_both (fs(out_path := Some (Inr df'))) in_path out_path = Inr (df_in, df')"
      using ri r by (simp add: read_both_def path_exists_def)
    then show ?thesis using a ne m ids fs' unfolding recs by auto
  qed
qed


text \<open>A second run leaves the files as the first run left them when the table the first
  run writes, if it writes one, is kept, and \<open>process_books\<close> passes on the identifier of
  every input row as the text its mask compares.\<close>

lemma process_books_again:
  assumes rb: "read_both fs in_path out_path = Inr (df_in, df_out)"
    and sel: "select_new_books L df_in df_out = Inr nb"
    and same: "\<forall>r\<in>set (rows df_in). query_isbn L df_in r = mask_isbn L r"
    and wk: "write_kept self W L out_path df_in df_out nb"
  shows "snd (process_books self W L in_path out_path
                (snd (process_books self W L in_path out_path fs))) =
         snd (process_books self W L in_path out_path fs)"
proof -
  let ?fs' = "snd (process_books self W L in_path out_path fs)"
  note ok = select_ok_ledger_read [OF rb sel]
  have ci: "''isbn'' \<in> set (columns df_in)" using ok read_file_columns by blast
  from process_books_after [OF rb sel wk]
  show ?thesis
  proof
    assume "?fs' = fs"
    then show ?thesis by simp
  next
    assume "\<exists>df'. new_records self W L df_in nb \<noteq> []
            \<and> appended self W L df_in nb [] = Inr (new_records self W L df_in nb)
            \<and> ?fs' = fs(out_path := Some (Inr df'))
            \<and> read_both (fs(out_path := Some (Inr df'))) in_path out_path = Inr (df_in, df')
            \<and> map (mask_isbn L) (rows df') =
                map (mask_isbn L) (rows df_out)
                @ map (mask_isbn L) (new_records self W L df_in nb)"
    then obtain df' where w: "?fs' = fs(out_path := Some (Inr df'))"
      and a: "appended self W L df_in nb [] = Inr (new_records self W L df_in nb)"
      and rb': "read_both ?fs' in_path out_path = Inr (df_in, df')"
      and ids: "map (mask_isbn L) (rows df') =
                  map (mask_isbn L) (rows df_out)
                  @ map (mask_isbn L) (new_records self W L df_in nb)"
      by auto
    have co': "''isbn'' \<in> set (columns df')"
      using read_both_cases [OF rb'] read_file_columns [of ?fs' out_path df']
      unfolding w by (simp add: path_exists_def)
    let ?nb' = "filter (\<lambda>(idx, r). mask_isbn L r \<notin> set (map (mask_isbn L) (rows df')))
                  (enumerate 0 (rows df_in))"
    have sel': "select_new_books L df_in df' = Inr ?nb'"
      by (rule select_new_books_eq [OF ci co'])
    have none: "fst (get_book_data self W L (query_name L df_in r) (query_isbn L df_in r)) = Inr None"
      if m: "(idx, r) \<in> set ?nb'" for idx r
    proof -
      have in_nb: "(idx, r) \<in> set nb" using m ok unfolding ids by auto
      have r_in: "r \<in> set (rows df_in)" using m by (auto simp: in_set_enumerate_eq)
      obtain v where v: "fst (get_book_data self W L (query_name L df_in r) (query_isbn L df_in r)) = Inr v"
        using get_book_data_value by blast
      show ?thesis
      proof (cases v)
        case None
        then show ?thesis using v by simp
      next
        case (Some x)
        show ?thesis
        proof (cases x)
          case (Book b)
          then have "resolve self W L df_in r = Some b" using v Some by (simp add: resolve_Book)
          then have "query_isbn L df_in r \<in> set (map (mask_isbn L) (new_records self W L df_in nb))"
            unfolding mask_isbn_new_records using in_nb by auto
          then have "mask_isbn L r \<in> set (map (mask_isbn L) (rows df'))"
            using same r_in unfolding ids by auto
          then show ?thesis using m by simp
        next
          case (Choice n c)
          then have "appended self W L df_in nb [] = Inl TypeError"
            using appended_TypeError [OF in_nb, of self W L df_in n c "[]"] v Some by simp
          then show ?thesis using a by simp
        qed
      qed
    qed
    have "appended self W L df_in nb' acc = Inr acc"
      if "set nb' \<subseteq> set ?nb'" for nb' acc
      using that
    proof (induction nb' arbitrary: acc)
      case Nil
      show ?case by simp
    next
      case (Cons q rest)
      obtain j r' where q: "q = (j, r')" by (cases q)
      have "(j, r') \<in> set ?nb'" using Cons.prems q by auto
      then have "fst (get_book_data self W L (query_name L df_in r') (query_isbn L df_in r')) =
                   Inr None"
        by (rule none)
      moreover have "appended self W L df_in rest acc = Inr acc"
        using Cons.IH Cons.prems by simp
      ultimately show ?case by (simp add: q append_result_def)
    qed
    then have "appended self W L df_in ?nb' [] = Inr []" by simp
    then have "snd (process_books self W L in_path out_path ?fs') = ?fs'"
      using process_books_snd [OF rb' sel', of self W] by (simp add: merged_def)
    then show ?thesis .
  qed
qed

lemma decimal_small: "n < 10 \<Longrightarrow> decimal n = [digit n]"
  by (simp add: decimal.simps)

lemma decimal_big: "\<not> n < 10 \<Longrightarrow> decimal n = decimal (n div 10) @ [digit (n mod 10)]"
  by (subst decimal.simps) simp

subsection \<open>The program in the concrete world\<close>

lemmas demo_urls =
  google_books_url_def demo_self_def BookEnricher_init_def GOOGLE_BOOKS_API_URL_def
  goodreads_search_url_def GOODREADS_URL_def worldcat_search_url_def WORLDCAT_URL_def

lemma demo_session_get:
  "session_get demo_world (google_books_url demo_self ''222'') =
     Inr \<lparr>status = 200, resp_text = Inr [],
          resp_json = Inr \<lparr>totalItems = Some 1, items = Some [demo_volume]\<rparr>\<rparr>"
  "session_get demo_world (google_books_url demo_self ''111'') =
     Inr \<lparr>status = 404, resp_text = Inr [], resp_json = Inl DecodeError\<rparr>"
  "session_get demo_world (goodreads_search_url demo_lib ''A'' ''111'') =
     Inr \<lparr>status = 404, resp_text = Inr [], resp_json = Inl DecodeError\<rparr>"
  "session_get demo_world (goodreads_search_url demo_lib ''B'' ''111'') =
     Inr \<lparr>status = 200, resp_text = Inr ''one row'', resp_json = Inl DecodeError\<rparr>"
  "session_get demo_world (goodreads_search_url demo_lib ''C'' ''333'') =
     Inr \<lparr>status = 200, resp_text = Inr ''one row'', resp_json = Inl DecodeError\<rparr>"
  "session_get demo_world (worldcat_search_url demo_lib ''111'') =
     Inr \<lparr>status = 404, resp_text = Inr [], resp_json = Inl DecodeError\<rparr>"
  "session_get demo_world (worldcat_search_url demo_lib ''333'') =
     Inr \<lparr>status = 200, resp_text = Inr ''one item'', resp_json = Inl DecodeError\<rparr>"
  "session_get demo_world (goodreads_search_url demo_lib ''D'' ''444'') = Inl ClientError"
  "session_get demo_world (worldcat_search_url demo_lib ''444'') =
     Inr \<lparr>status = 200, resp_text = Inl DecodeError, resp_json = Inl DecodeError\<rparr>"
  "session_get demo_world (google_books_url demo_self ''444'') =
     Inr \<lparr>status = 200, resp_text = Inl DecodeError, resp_json = Inl DecodeError\<rparr>"
  by (simp_all add: demo_world_def demo_urls demo_lib_def)


lemma demo_html_parser:
  "html_parser demo_lib ''one row'' GOODREADS_table_rows = [demo_row]"
  "html_parser demo_lib ''one item'' WORLDCAT_items = [demo_item]"
  by (simp_all add: demo_lib_def GOODREADS_table_rows_def WORLDCAT_items_def)

lemma demo_goodreads_item:
  "goodreads_item demo_lib ident demo_row = Inr (Some (demo_book_B\<lparr>isbn := ident\<rparr>))"
  by (simp add: goodreads_item_def goodreads_rating_def demo_row_def demo_lib_def
        GOODREADS_title_def GOODREADS_author_def GOODREADS_rating_def BookData_init_def
        demo_book_B_def)

lemma demo_worldcat_item:
  "worldcat_item demo_lib ''333'' demo_item = Some demo_book_C_worldcat"
  by (simp add: worldcat_item_def demo_item_def demo_lib_def WORLDCAT_title_def
        WORLDCAT_author_def WORLDCAT_publisher_def BookData_init_def demo_book_C_worldcat_def)

lemma demo_google_222:
  "fetch_google_books demo_self demo_world ''222'' =
     (Inr (Some demo_book_1984), [EGet Primary (google_books_url demo_self ''222'')])"
  by (simp add: fetch_google_books_unfold Let_def demo_session_get first_info_def first_item_def
        demo_volume_def google_book_def demo_book_1984_def)

lemma demo_google_111:
  "fst (fetch_google_books demo_self demo_world ''111'') = Inr None"
  by (simp add: fetch_google_books_unfold Let_def demo_session_get)

lemma demo_goodreads_B:
  "fst (GoodreadsSource_search demo_world demo_lib ''B'' ''111'') = Inr [demo_book_B]"
  by (simp add: GoodreadsSource_search_unfold Let_def demo_session_get demo_html_parser
        MAX_RESULTS_PER_SOURCE_def demo_goodreads_item)
     (simp add: demo_book_B_def)

lemma demo_goodreads_C:
  "fst (GoodreadsSource_search demo_world demo_lib ''C'' ''333'') = Inr [demo_book_C_goodreads]"
  by (simp add: GoodreadsSource_search_unfold Let_def demo_session_get demo_html_parser
        MAX_RESULTS_PER_SOURCE_def demo_goodreads_item demo_book_C_goodreads_def)

lemma demo_goodreads_A:
  "fst (GoodreadsSource_search demo_world demo_lib ''A'' ''111'') = Inr []"
  by (simp add: GoodreadsSource_search_unfold Let_def demo_session_get)

lemma demo_worldcat:
  "fst (WorldCatSource_search demo_world demo_lib name ''111'') = Inr []"
  by (simp add: WorldCatSource_search_unfold Let_def demo_session_get)

lemma demo_worldcat_C:
  "fst (WorldCatSource_search demo_world demo_lib name ''333'') = Inr [demo_book_C_worldcat]"
  by (simp add: WorldCatSource_search_unfold Let_def demo_session_get demo_html_parser
        MAX_RESULTS_PER_SOURCE_def List.map_filter_simps demo_worldcat_item)

lemma demo_search_sources_B:
  "fst (search_sources demo_world demo_lib (sources demo_self) ''B'' ''111'' []) = Inr [demo_book_B]"
  unfolding search_sources_fst
  by (simp add: demo_self_def BookEnricher_init_def demo_goodreads_B demo_worldcat)



lemma demo_get_book_data_B:
  "fst (get_book_data demo_self demo_world demo_lib ''B'' ''111'') =
     Inr (Some (Choice ''Title B by Author B () - from goodreads'' (Some demo_book_B)))"
  using get_book_data_miss [OF demo_google_111 demo_search_sources_B]
  by (simp add: demo_world_def chosen_def choice_name_def demo_book_B_def)




lemma demo_queries:
  "query_name demo_lib df row_A = ''A''" "query_isbn demo_lib df row_A = ''111''"
  "query_name demo_lib df row_B = ''B''" "query_isbn demo_lib df row_B = ''111''"
  "query_name demo_lib df row_E = ''E''" "query_isbn demo_lib df row_E = ''222''"
  "query_name demo_lib df row_plain = ''P''" "query_isbn demo_lib df row_plain = ''451524934''"
  "query_name demo_lib df row_zero = ''Q''" "query_isbn demo_lib df row_zero = ''0451524934''"
  "query_name demo_lib df row_text = ''R''" "query_isbn demo_lib df row_text = ''080442957X''"
  by (simp_all add: query_name_def query_isbn_def row_A_def row_B_def row_E_def row_plain_def
        row_zero_def row_text_def cell_at_def str_cell_def demo_lib_def)

lemma demo_masks:
  "mask_isbn demo_lib row_A = ''111''" "mask_isbn demo_lib row_B = ''111''"
  "mask_isbn demo_lib row_E = ''222''" "mask_isbn demo_lib row_plain = ''451524934''"
  "mask_isbn demo_lib row_zero = ''0451524934''" "mask_isbn demo_lib row_text = ''080442957X''"
  by (simp_all add: mask_isbn_def row_A_def row_B_def row_E_def row_plain_def
        row_zero_def row_text_def cell_at_def str_cell_def)



lemma demo_str_int:
  "str_int 451524934 = ''451524934''" "str_int 222 = ''222''"
  by (simp_all add: str_int_def decimal_small decimal_big digit_def)


lemma read_both_intro:
  assumes "fs in_path = Some (Inr df_in)" and "fs out_path = Some (Inr df_out)"
    and "''book_name'' \<in> set (columns df_in)" and "''isbn'' \<in> set (columns df_in)"
    and "''book_name'' \<in> set (columns df_out)" and "''isbn'' \<in> set (columns df_out)"
  shows "read_both fs in_path out_path = Inr (df_in, df_out)"
  using assms by (simp add: read_both_def path_exists_def read_file_intro)

lemma demo_read_input: "read_file first_run_fs ''books.csv'' = Inr demo_input"
  by (simp add: read_file_def first_run_fs_def demo_input_def required_columns_def)

lemma demo_read_both:
  "read_both demo_fs ''books.csv'' ''enriched_books.csv'' = Inr (demo_input, demo_ledger)"
  "read_both demo_fs_A ''books.csv'' ''enriched_books.csv'' = Inr (demo_input_A, demo_ledger)"
  "read_both demo_fs_AE ''books.csv'' ''enriched_books.csv'' = Inr (demo_input_AE, demo_ledger)"
  "read_both zero_fs ''books.csv'' ''enriched_books.csv'' = Inr (zero_input, demo_ledger)"
  "read_both zero_fs_1 ''books.csv'' ''enriched_books.csv'' = Inr (zero_input, zero_ledger_1)"
  "read_both zero_fs_2 ''books.csv'' ''enriched_books.csv'' = Inr (zero_input, zero_ledger_2)"
  "read_both plain_fs ''books.csv'' ''enriched_books.csv'' = Inr (plain_input, zero_ledger_1)"
  by (rule read_both_intro;
      simp add: demo_fs_def demo_fs_A_def demo_fs_AE_def zero_fs_def zero_fs_1_def zero_fs_2_def
        plain_fs_def demo_input_def demo_input_A_def demo_input_AE_def zero_input_def
        plain_input_def demo_ledger_def zero_ledger_1_def zero_ledger_2_def BookData_fields_def)+

lemma demo_ledger_masks:
  "map (mask_isbn demo_lib) (rows demo_ledger) = []"
  "map (mask_isbn demo_lib) (rows zero_ledger_1) = [''451524934'']"
  "map (mask_isbn demo_lib) (rows zero_ledger_2) = [''451524934'', ''451524934'']"
  "map (mask_isbn demo_lib) (rows demo_ledger_AE) = [''222'']"
  by (simp_all add: demo_ledger_def zero_ledger_1_def zero_ledger_2_def demo_ledger_AE_def
        zero_row_read_def mask_isbn_def cell_at_def str_cell_def demo_lib_def demo_str_int)

lemma demo_select:
  "select_new_books demo_lib demo_input demo_ledger = Inr [(0, row_A), (1, row_B)]"
  "select_new_books demo_lib demo_input_A demo_ledger = Inr [(0, row_A)]"
  "select_new_books demo_lib demo_input_AE demo_ledger = Inr [(0, row_A), (1, row_E)]"
  "select_new_books demo_lib demo_input_AE demo_ledger_AE = Inr [(0, row_A)]"
  "select_new_books demo_lib zero_input demo_ledger =
     Inr [(0, row_plain), (1, row_zero), (2, row_text)]"
  "select_new_books demo_lib zero_input zero_ledger_1 = Inr [(1, row_zero), (2, row_text)]"
  "select_new_books demo_lib plain_input zero_ledger_1 = Inr []"
proof -
  have c: "''isbn'' \<in> set (columns demo_input)" "''isbn'' \<in> set (columns demo_input_A)"
    "''isbn'' \<in> set (columns demo_input_AE)" "''isbn'' \<in> set (columns zero_input)"
    "''isbn'' \<in> set (columns plain_input)" "''isbn'' \<in> set (columns demo_ledger)"
    "''isbn'' \<in> set (columns zero_ledger_1)" "''isbn'' \<in> set (columns demo_ledger_AE)"
    by (simp_all add: demo_input_def demo_input_A_def demo_input_AE_def zero_input_def
          plain_input_def demo_ledger_def zero_ledger_1_def demo_ledger_AE_def BookData_fields_def)
  have e: "enumerate 0 (rows demo_input) = [(0, row_A), (1, row_B)]"
    "enumerate 0 (rows demo_input_A) = [(0, row_A)]"
    "enumerate 0 (rows demo_input_AE) = [(0, row_A), (1, row_E)]"
    "enumerate 0 (rows zero_input) = [(0, row_plain), (1, row_zero), (2, row_text)]"
    "enumerate 0 (rows plain_input) = [(0, row_plain)]"
    by (simp_all add: demo_input_def demo_input_A_def demo_input_AE_def zero_input_def
          plain_input_def)
  show "select_new_books demo_lib demo_input demo_ledger = Inr [(0, row_A), (1, row_B)]"
    by (simp add: select_new_books_eq c e demo_ledger_masks)
  show "select_new_books demo_lib demo_input_A demo_ledger = Inr [(0, row_A)]"
    by (simp add: select_new_books_eq c e demo_ledger_masks)
  show "select_new_books demo_lib demo_input_AE demo_ledger = Inr [(0, row_A), (1, row_E)]"
    by (simp add: select_new_books_eq c e demo_ledger_masks)
  show "select_new_books demo_lib demo_input_AE demo_ledger_AE = Inr [(0, row_A)]"
    by (simp add: select_new_books_eq c e demo_ledger_masks demo_masks)
  show "select_new_books demo_lib zero_input demo_ledger =
     Inr [(0, row_plain), (1, row_zero), (2, row_text)]"
    by (simp add: select_new_books_eq c e demo_ledger_masks)
  show "select_new_books demo_lib zero_input zero_ledger_1 = Inr [(1, row_zero), (2, row_text)]"
    by (simp add: select_new_books_eq c e demo_ledger_masks demo_masks)
  show "select_new_books demo_lib plain_input zero_ledger_1 = Inr []"
    by (simp add: select_new_books_eq c e demo_ledger_masks demo_masks)
qed







section \<open>The claims\<close>

text \<open>C1. On a first run there is no output file: \<open>process_books\<close> reads the input, takes
  \<open>pd.DataFrame()\<close> for the ledger, and then \<open>df_out['isbn']\<close> raises KeyError, since the
  empty frame has no such column. The exception leaves \<open>process_books\<close>; no query is
  processed, nothing is printed and nothing is written. This is so for every readable input
  file (\<open>process_books_output_absent\<close>); here it is on an input of two rows. With an output
  file that can be read, the pending rows are those of \<open>select_ok_ledger_read\<close>.\<close>

theorem first_run_raises_KeyError:
  "read_both first_run_fs ''books.csv'' ''enriched_books.csv'' = Inr (demo_input, DataFrame_empty)
   \<and> process_books self W L ''books.csv'' ''enriched_books.csv'' first_run_fs =
       ((Inl (KeyError ''isbn''), []), first_run_fs)"
proof -
  have ex: "\<not> path_exists first_run_fs ''enriched_books.csv''"
    by (simp add: path_exists_def first_run_fs_def)
  have rb: "read_both first_run_fs ''books.csv'' ''enriched_books.csv'' =
              Inr (demo_input, DataFrame_empty)"
    by (simp add: read_both_def demo_read_input ex)
  have "select_new_books L demo_input DataFrame_empty = Inl (KeyError ''isbn'')"
    by (rule select_new_books_KeyError) (simp_all add: demo_input_def DataFrame_empty_def)
  then show ?thesis
    using rb process_books_select_error [OF rb, of L "KeyError ''isbn''" self W] by simp
qed

text \<open>C2. When \<open>fetch_google_books\<close> returns a candidate, \<open>get_book_data\<close> returns that
  candidate; the only events are the one request to Google Books and the message that the
  book was found, so no fallback source is searched and no prompt is shown.\<close>

theorem primary_short_circuit:
  assumes "fst (fetch_google_books self W ident) = Inr (Some b)"
  shows "fst (get_book_data self W L name ident) = Inr (Some (Book b))
       \<and> snd (get_book_data self W L name ident) =
           [EGet Primary (google_books_url self ident), EPrint (FoundInGoogle name)]
       \<and> (\<forall>ev\<in>set (snd (get_book_data self W L name ident)).
             (\<forall>src u. ev \<noteq> EGet (Fallback src) u) \<and> (\<forall>msg choices. ev \<noteq> EPrompt msg choices))"
  using get_book_data_hit [OF assms, of L name] fetch_google_books_hit_events [OF assms]
  by simp

theorem primary_short_circuit_witness:
  "fst (fetch_google_books demo_self demo_world ''222'') = Inr (Some demo_book_1984)
   \<and> fst (get_book_data demo_self demo_world demo_lib ''1984'' ''222'') =
       Inr (Some (Book demo_book_1984))
   \<and> snd (get_book_data demo_self demo_world demo_lib ''1984'' ''222'') =
       [EGet Primary (google_books_url demo_self ''222''), EPrint (FoundInGoogle ''1984'')]"
proof -
  have h: "fst (fetch_google_books demo_self demo_world ''222'') = Inr (Some demo_book_1984)"
    by (simp add: demo_google_222)
  show ?thesis
    using h primary_short_circuit [OF h, of demo_lib "''1984''"] by simp
qed

text \<open>C3. When Google Books has nothing for a row's identifier and every source returns the
  empty list for the row, \<open>get_book_data\<close> returns \<open>None\<close> after printing that no results
  were found; the loop of \<open>process_books\<close> appends nothing for the row, wherever it stands
  among the pending rows; and the files after the run are those that the other pending rows
  alone give, so the ledger is unchanged when no other row is pending.\<close>

theorem no_candidates_means_skip:
  assumes g: "fst (fetch_google_books self W (query_isbn L df_in r)) = Inr None"
    and s: "\<forall>src\<in>set (sources self).
              fst (search src W L (query_name L df_in r) (query_isbn L df_in r)) = Inr []"
  shows "fst (get_book_data self W L (query_name L df_in r) (query_isbn L df_in r)) = Inr None
       \<and> last (snd (get_book_data self W L (query_name L df_in r) (query_isbn L df_in r))) =
           EPrint (NoResultsFound (query_name L df_in r) (query_isbn L df_in r))
       \<and> fst (process_rows self W L n df_in (pre @ (idx, r) # post) acc) =
           fst (process_rows self W L n df_in (pre @ post) acc)
       \<and> (read_both fs in_path out_path = Inr (df_in, df_out)
            \<and> select_new_books L df_in df_out = Inr nb \<longrightarrow>
          snd (process_books self W L in_path out_path fs) =
            merged W L out_path df_out
              (fst (process_rows self W L n df_in (filter (\<lambda>(j, r'). r' \<noteq> r) nb) [])) fs)"
proof -
  have c: "fst (search_sources W L (sources self) (query_name L df_in r) (query_isbn L df_in r) [])
             = Inr []"
    unfolding search_sources_fst using s by simp
  note m = get_book_data_miss [OF g c]
  have 1: "fst (get_book_data self W L (query_name L df_in r) (query_isbn L df_in r)) = Inr None"
    using m by simp
  have 2: "last (snd (get_book_data self W L (query_name L df_in r) (query_isbn L df_in r))) =
           EPrint (NoResultsFound (query_name L df_in r) (query_isbn L df_in r))"
    using m by simp
  have "appended self W L df_in (pre @ (idx, r) # post) acc =
          appended self W L df_in (pre @ post) acc"
    unfolding appended_append appended_skip [OF 1] ..
  then have 3: "fst (process_rows self W L n df_in (pre @ (idx, r) # post) acc) =
           fst (process_rows self W L n df_in (pre @ post) acc)"
    by (simp add: process_rows_fst)
  have 4: "snd (process_books self W L in_path out_path fs) =
            merged W L out_path df_out
              (fst (process_rows self W L n df_in (filter (\<lambda>(j, r'). r' \<noteq> r) nb) [])) fs"
    if "read_both fs in_path out_path = Inr (df_in, df_out)"
      and "select_new_books L df_in df_out = Inr nb"
    using process_books_snd [OF that, of self W] appended_without_skipped [OF 1, of nb "[]"]
    by (simp add: process_rows_fst)
  show ?thesis using 1 2 3 4 by blast
qed

theorem no_candidates_means_skip_witness:
  "fst (fetch_google_books demo_self demo_world (query_isbn demo_lib demo_input_A row_A)) = Inr None
   \<and> sources demo_self = [GoodreadsSource, WorldCatSource]
   \<and> fst (search GoodreadsSource demo_world demo_lib (query_name demo_lib demo_input_A row_A)
            (query_isbn demo_lib demo_input_A row_A)) = Inr []
   \<and> fst (search WorldCatSource demo_world demo_lib (query_name demo_lib demo_input_A row_A)
            (query_isbn demo_lib demo_input_A row_A)) = Inr []
   \<and> read_both demo_fs_A ''books.csv'' ''enriched_books.csv'' = Inr (demo_input_A, demo_ledger)
   \<and> select_new_books demo_lib demo_input_A demo_ledger = Inr [(0, row_A)]
   \<and> fst (get_book_data demo_self demo_world demo_lib (query_name demo_lib demo_input_A row_A)
            (query_isbn demo_lib demo_input_A row_A)) = Inr None
   \<and> snd (process_books demo_self demo_world demo_lib ''books.csv'' ''enriched_books.csv''
            demo_fs_A) = demo_fs_A"
proof -
  have g: "fst (fetch_google_books demo_self demo_world (query_isbn demo_lib demo_input_A row_A)) =
             Inr None"
    by (simp add: demo_queries demo_google_111)
  have s: "\<forall>src\<in>set (sources demo_self).
         fst (search src demo_world demo_lib (query_name demo_lib demo_input_A row_A)
                (query_isbn demo_lib demo_input_A row_A)) = Inr []"
    by (simp add: demo_self_def BookEnricher_init_def demo_queries demo_goodreads_A demo_worldcat)
  have "merged demo_world demo_lib ''enriched_books.csv'' demo_ledger
          (fst (process_rows demo_self demo_world demo_lib 0 demo_input_A
                  (filter (\<lambda>(j, r'). r' \<noteq> row_A) [(0, row_A)]) [])) demo_fs_A = demo_fs_A"
    by (simp add: merged_def ret_def)
  then show ?thesis
    using no_candidates_means_skip [OF g s, of 0 "[]" 0 "[]" "[]" demo_fs_A "''books.csv''"
        "''enriched_books.csv''" demo_ledger "[(0, row_A)]"]
      g s demo_read_both(2) demo_select(2)
    by (simp add: demo_self_def BookEnricher_init_def)
qed

text \<open>C4. No call of an adapter raises: \<open>GoodreadsSource.search\<close>, \<open>WorldCatSource.search\<close> and
  \<open>fetch_google_books\<close> always return a value. When the request meets a transport error, a
  status other than 200 or a body that cannot be read, the scrapers return the empty list
  and \<open>fetch_google_books\<close> returns \<open>None\<close>.\<close>

theorem adapter_failures_are_caught:
  "(\<exists>xs. fst (GoodreadsSource_search W L name ident) = Inr xs)
   \<and> (\<exists>xs. fst (WorldCatSource_search W L name ident) = Inr xs)
   \<and> (\<exists>r. fst (fetch_google_books self W ident) = Inr r)
   \<and> (html_failure (session_get W (goodreads_search_url L name ident)) \<longrightarrow>
        fst (GoodreadsSource_search W L name ident) = Inr [])
   \<and> (html_failure (session_get W (worldcat_search_url L ident)) \<longrightarrow>
        fst (WorldCatSource_search W L name ident) = Inr [])
   \<and> (json_failure (session_get W (google_books_url self ident)) \<longrightarrow>
        fst (fetch_google_books self W ident) = Inr None)"
  using GoodreadsSource_search_value [of W L name ident]
    WorldCatSource_search_value [of W L name ident]
    fetch_google_books_value [of self W ident]
    GoodreadsSource_search_failure [of W L name ident]
    WorldCatSource_search_failure [of W L ident name]
    fetch_google_books_failure [of W self ident]
  by blast

theorem adapter_failures_are_caught_witness:
  "html_failure (session_get demo_world (goodreads_search_url demo_lib ''A'' ''111''))
   \<and> html_failure (session_get demo_world (worldcat_search_url demo_lib ''111''))
   \<and> json_failure (session_get demo_world (google_books_url demo_self ''111''))
   \<and> fst (GoodreadsSource_search demo_world demo_lib ''A'' ''111'') = Inr []
   \<and> fst (WorldCatSource_search demo_world demo_lib ''A'' ''111'') = Inr []
   \<and> fst (fetch_google_books demo_self demo_world ''111'') = Inr None
   \<and> session_get demo_world (goodreads_search_url demo_lib ''D'' ''444'') = Inl ClientError
   \<and> html_failure (session_get demo_world (goodreads_search_url demo_lib ''D'' ''444''))
   \<and> html_failure (session_get demo_world (worldcat_search_url demo_lib ''444''))
   \<and> json_failure (session_get demo_world (google_books_url demo_self ''444''))
   \<and> fst (GoodreadsSource_search demo_world demo_lib ''D'' ''444'') = Inr []
   \<and> fst (WorldCatSource_search demo_world demo_lib ''D'' ''444'') = Inr []
   \<and> fst (fetch_google_books demo_self demo_world ''444'') = Inr None"
proof -
  have 1: "html_failure (session_get demo_world (goodreads_search_url demo_lib ''A'' ''111''))"
    "html_failure (session_get demo_world (worldcat_search_url demo_lib ''111''))"
    "json_failure (session_get demo_world (google_books_url demo_self ''111''))"
    by (simp_all add: html_failure_def json_failure_def demo_session_get)
  have 2: "html_failure (session_get demo_world (goodreads_search_url demo_lib ''D'' ''444''))"
    "html_failure (session_get demo_world (worldcat_search_url demo_lib ''444''))"
    "json_failure (session_get demo_world (google_books_url demo_self ''444''))"
    by (simp_all add: html_failure_def json_failure_def demo_session_get)
  show ?thesis
    using 1 2 demo_session_get(8)
      adapter_failures_are_caught [of demo_world demo_lib "''A''" "''111''" demo_self]
      adapter_failures_are_caught [of demo_world demo_lib "''D''" "''444''" demo_self]
    by blast
qed

text \<open>C5. The list that the loop over the sources of a \<open>BookEnricher\<close> collects is the result
  of Goodreads followed by the result of WorldCat, each in its own order; each of the two has
  at most \<open>MAX_RESULTS_PER_SOURCE\<close> = 3 candidates, the first all from Goodreads and the
  second all from WorldCat.\<close>

theorem aggregation_bounded_and_ordered:
  "\<exists>gr wc.
      fst (GoodreadsSource_search W L name ident) = Inr gr
    \<and> fst (WorldCatSource_search W L name ident) = Inr wc
    \<and> fst (search_sources W L (sources (BookEnricher_init key)) name ident []) = Inr (gr @ wc)
    \<and> length gr \<le> MAX_RESULTS_PER_SOURCE \<and> length wc \<le> MAX_RESULTS_PER_SOURCE
    \<and> MAX_RESULTS_PER_SOURCE = 3
    \<and> (\<forall>b\<in>set gr. source b = ''goodreads'') \<and> (\<forall>b\<in>set wc. source b = ''worldcat'')"
proof -
  obtain gr where gr: "fst (GoodreadsSource_search W L name ident) = Inr gr"
    "length gr \<le> MAX_RESULTS_PER_SOURCE" "\<forall>b\<in>set gr. source b = ''goodreads''"
    using GoodreadsSource_search_value [of W L name ident] by blast
  obtain wc where wc: "fst (WorldCatSource_search W L name ident) = Inr wc"
    "length wc \<le> MAX_RESULTS_PER_SOURCE" "\<forall>b\<in>set wc. source b = ''worldcat''"
    using WorldCatSource_search_value [of W L name ident] by blast
  have "fst (search_sources W L (sources (BookEnricher_init key)) name ident []) = Inr (gr @ wc)"
    unfolding search_sources_fst by (simp add: BookEnricher_init_def gr wc)
  then show ?thesis
    using gr wc by (simp add: MAX_RESULTS_PER_SOURCE_def)
qed

theorem aggregation_bounded_and_ordered_witness:
  "fst (GoodreadsSource_search demo_world demo_lib ''C'' ''333'') = Inr [demo_book_C_goodreads]
   \<and> fst (WorldCatSource_search demo_world demo_lib ''C'' ''333'') = Inr [demo_book_C_worldcat]
   \<and> fst (search_sources demo_world demo_lib (sources (BookEnricher_init ''key'')) ''C'' ''333'' [])
       = Inr [demo_book_C_goodreads, demo_book_C_worldcat]
   \<and> length [demo_book_C_goodreads] \<le> MAX_RESULTS_PER_SOURCE
   \<and> length [demo_book_C_worldcat] \<le> MAX_RESULTS_PER_SOURCE
   \<and> source demo_book_C_goodreads = ''goodreads''
   \<and> source demo_book_C_worldcat = ''worldcat''"
proof -
  obtain gr wc where
    a: "fst (GoodreadsSource_search demo_world demo_lib ''C'' ''333'') = Inr gr"
    and b: "fst (WorldCatSource_search demo_world demo_lib ''C'' ''333'') = Inr wc"
    and c: "fst (search_sources demo_world demo_lib (sources (BookEnricher_init ''key''))
               ''C'' ''333'' []) = Inr (gr @ wc)"
    and d: "length gr \<le> MAX_RESULTS_PER_SOURCE" "\<forall>b\<in>set gr. source b = ''goodreads''"
      "length wc \<le> MAX_RESULTS_PER_SOURCE" "\<forall>b\<in>set wc. source b = ''worldcat''"
    using aggregation_bounded_and_ordered [of demo_world demo_lib "''C''" "''333''" "''key''"]
    by blast
  have "gr = [demo_book_C_goodreads]" using a demo_goodreads_C by simp
  moreover have "wc = [demo_book_C_worldcat]" using b demo_worldcat_C by simp
  ultimately show ?thesis using c d demo_goodreads_C demo_worldcat_C by simp
qed




text \<open>C7. When Google Books has nothing for a row and the sources give a non-empty list of
  candidates, the prompt is the last event of \<open>get_book_data\<close>. Its choices are the
  candidates in the order collected, unchanged, each named by its title, authors, year and
  source, followed by the choice to skip. When the operator cancels, the result is \<open>None\<close>.
  When the operator confirms a choice, the result is neither a candidate nor \<open>None\<close>: it is
  the chosen dictionary with its name and its value, for a candidate and for the skip
  alike. The loop of \<open>process_books\<close> then raises TypeError at \<open>asdict\<close> for the row, and a
  run in which the row is pending raises TypeError and leaves the files as they were.\<close>

theorem prompt_returns_the_choice:
  assumes g: "fst (fetch_google_books self W (query_isbn L df r)) = Inr None"
    and c: "fst (search_sources W L (sources self) (query_name L df r) (query_isbn L df r) []) =
              Inr cands"
    and ne: "cands \<noteq> []"
  shows "build_choices cands =
           zip (map (\<lambda>b. book_name b @ '' by '' @ authors b @ '' ('' @ year b @
                           '') - from '' @ source b) cands @ [''Skip this book''])
               (map Some cands @ [None])
       \<and> last (snd (get_book_data self W L (query_name L df r) (query_isbn L df r))) =
           EPrompt (prompt_message (query_name L df r)) (build_choices cands)
       \<and> (decide W (prompt_message (query_name L df r)) (build_choices cands) = None \<longrightarrow>
            fst (get_book_data self W L (query_name L df r) (query_isbn L df r)) = Inr None)
       \<and> (\<forall>k. decide W (prompt_message (query_name L df r)) (build_choices cands) = Some k \<longrightarrow>
            fst (get_book_data self W L (query_name L df r) (query_isbn L df r)) =
              Inr (Some (if k < length cands
                         then Choice (choice_name (cands ! k)) (Some (cands ! k))
                         else Choice ''Skip this book'' None))
          \<and> fst (process_rows self W L n df ((idx, r) # rest) acc) = Inl TypeError
          \<and> (read_both fs in_path out_path = Inr (df, df_out)
               \<and> select_new_books L df df_out = Inr nb \<and> (idx, r) \<in> set nb \<longrightarrow>
             fst (fst (process_books self W L in_path out_path fs)) = Inl TypeError
             \<and> snd (process_books self W L in_path out_path fs) = fs))"
proof -
  let ?name = "query_name L df r" and ?ident = "query_isbn L df r"
  have z: "build_choices cands =
           zip (map (\<lambda>b. book_name b @ '' by '' @ authors b @ '' ('' @ year b @
                           '') - from '' @ source b) cands @ [''Skip this book''])
               (map Some cands @ [None])"
    by (simp add: build_choices_def choice_name_def zip_map_map zip_same_conv_map)
  note m = get_book_data_miss [OF g c]
  have l: "last (snd (get_book_data self W L ?name ?ident)) =
           EPrompt (prompt_message ?name) (build_choices cands)"
    using m ne by simp
  have v: "fst (get_book_data self W L ?name ?ident) =
             Inr (map_option (chosen cands) (decide W (prompt_message ?name) (build_choices cands)))"
    using m ne by simp
  have n: "fst (get_book_data self W L ?name ?ident) = Inr None"
    if "decide W (prompt_message ?name) (build_choices cands) = None"
    using v that by simp
  have k: "fst (get_book_data self W L ?name ?ident) =
              Inr (Some (if k < length cands
                         then Choice (choice_name (cands ! k)) (Some (cands ! k))
                         else Choice ''Skip this book'' None))
          \<and> fst (process_rows self W L n df ((idx, r) # rest) acc) = Inl TypeError
          \<and> (read_both fs in_path out_path = Inr (df, df_out)
               \<and> select_new_books L df df_out = Inr nb \<and> (idx, r) \<in> set nb \<longrightarrow>
             fst (fst (process_books self W L in_path out_path fs)) = Inl TypeError
             \<and> snd (process_books self W L in_path out_path fs) = fs)"
    if d: "decide W (prompt_message ?name) (build_choices cands) = Some k" for k
  proof -
    obtain nm val where ch: "chosen cands k = Choice nm val"
      by (cases "k < length cands") (simp_all add: chosen_def)
    have a: "fst (get_book_data self W L ?name ?ident) = Inr (Some (Choice nm val))"
      using v d ch by simp
    have 1: "fst (get_book_data self W L ?name ?ident) =
              Inr (Some (if k < length cands
                         then Choice (choice_name (cands ! k)) (Some (cands ! k))
                         else Choice ''Skip this book'' None))"
      using v d by (simp add: chosen_def)
    have 2: "fst (process_rows self W L n df ((idx, r) # rest) acc) = Inl TypeError"
      unfolding process_rows_fst by (rule appended_TypeError [where idx = idx, OF _ a]) simp
    have 3: "fst (fst (process_books self W L in_path out_path fs)) = Inl TypeError
             \<and> snd (process_books self W L in_path out_path fs) = fs"
      if rb: "read_both fs in_path out_path = Inr (df, df_out)"
        and sel: "select_new_books L df df_out = Inr nb" and p: "(idx, r) \<in> set nb"
    proof -
      have "appended self W L df nb [] = Inl TypeError"
        by (rule appended_TypeError [OF p a])
      then show ?thesis
        using process_books_fst [OF rb sel, of self W] process_books_snd [OF rb sel, of self W]
        by (simp add: merged_def)
    qed
    show ?thesis using 1 2 3 by blast
  qed
  show ?thesis using z l n k by blast
qed

theorem prompt_returns_the_choice_witness:
  "fst (fetch_google_books demo_self demo_world (query_isbn demo_lib demo_input row_B)) = Inr None
   \<and> fst (search_sources demo_world demo_lib (sources demo_self)
            (query_name demo_lib demo_input row_B) (query_isbn demo_lib demo_input row_B) []) =
       Inr [demo_book_B]
   \<and> [demo_book_B] \<noteq> []
   \<and> decide demo_world (prompt_message (query_name demo_lib demo_input row_B))
        (build_choices [demo_book_B]) = Some 0
   \<and> read_both demo_fs ''books.csv'' ''enriched_books.csv'' = Inr (demo_input, demo_ledger)
   \<and> select_new_books demo_lib demo_input demo_ledger = Inr [(0, row_A), (1, row_B)]
   \<and> (1::nat, row_B) \<in> set [(0, row_A), (1, row_B)]
   \<and> fst (get_book_data demo_self demo_world demo_lib (query_name demo_lib demo_input row_B)
            (query_isbn demo_lib demo_input row_B)) =
       Inr (Some (Choice ''Title B by Author B () - from goodreads'' (Some demo_book_B)))
   \<and> fst (fst (process_books demo_self demo_world demo_lib ''books.csv'' ''enriched_books.csv''
                 demo_fs)) = Inl TypeError
   \<and> snd (process_books demo_self demo_world demo_lib ''books.csv'' ''enriched_books.csv''
            demo_fs) = demo_fs
   \<and> decide (demo_world\<lparr>decide := \<lambda>msg choices. Some 1\<rparr>)
        (prompt_message (query_name demo_lib demo_input row_B)) (build_choices [demo_book_B]) =
       Some 1
   \<and> fst (get_book_data demo_self (demo_world\<lparr>decide := \<lambda>msg choices. Some 1\<rparr>) demo_lib
            (query_name demo_lib demo_input row_B) (query_isbn demo_lib demo_input row_B)) =
       Inr (Some (Choice ''Skip this book'' None))
   \<and> decide (demo_world\<lparr>decide := \<lambda>msg choices. None\<rparr>)
        (prompt_message (query_name demo_lib demo_input row_B)) (build_choices [demo_book_B]) =
       None
   \<and> fst (get_book_data demo_self (demo_world\<lparr>decide := \<lambda>msg choices. None\<rparr>) demo_lib
            (query_name demo_lib demo_input row_B) (query_isbn demo_lib demo_input row_B)) =
       Inr None"
proof -
  let ?name = "query_name demo_lib demo_input row_B"
  let ?ident = "query_isbn demo_lib demo_input row_B"
  have ne: "[demo_book_B] \<noteq> []" by simp
  have p: "(1::nat, row_B) \<in> set [(0, row_A), (1, row_B)]" by simp
  have g: "fst (fetch_google_books demo_self (demo_world\<lparr>decide := f\<rparr>) ?ident) = Inr None" for f
    by (simp add: adapters_ignore_decide demo_queries demo_google_111)
  have c: "fst (search_sources (demo_world\<lparr>decide := f\<rparr>) demo_lib (sources demo_self)
                  ?name ?ident []) = Inr [demo_book_B]" for f
    by (simp add: search_sources_ignores_decide demo_queries demo_search_sources_B)
  have g0: "fst (fetch_google_books demo_self demo_world ?ident) = Inr None"
    by (simp add: demo_queries demo_google_111)
  have c0: "fst (search_sources demo_world demo_lib (sources demo_self) ?name ?ident []) =
              Inr [demo_book_B]"
    by (simp add: demo_queries demo_search_sources_B)
  have d0: "decide demo_world (prompt_message ?name) (build_choices [demo_book_B]) = Some 0"
    by (simp add: demo_world_def)
  note t0 = prompt_returns_the_choice [OF g0 c0 ne, of 0 1 "[]" "[]" demo_fs "''books.csv''"
      "''enriched_books.csv''" demo_ledger "[(0, row_A), (1, row_B)]"]
  have picked: "fst (get_book_data demo_self demo_world demo_lib ?name ?ident) =
       Inr (Some (Choice ''Title B by Author B () - from goodreads'' (Some demo_book_B)))
     \<and> fst (fst (process_books demo_self demo_world demo_lib ''books.csv'' ''enriched_books.csv''
                   demo_fs)) = Inl TypeError
     \<and> snd (process_books demo_self demo_world demo_lib ''books.csv'' ''enriched_books.csv''
              demo_fs) = demo_fs"
    using t0 d0 demo_read_both(1) demo_select(1) p
    by (simp add: choice_name_def demo_book_B_def)
  have skipped: "fst (get_book_data demo_self (demo_world\<lparr>decide := \<lambda>msg choices. Some 1\<rparr>)
                        demo_lib ?name ?ident) = Inr (Some (Choice ''Skip this book'' None))"
    using prompt_returns_the_choice
            [OF g [of "\<lambda>msg choices. Some 1"] c [of "\<lambda>msg choices. Some 1"] ne]
    by simp
  have cancelled: "fst (get_book_data demo_self (demo_world\<lparr>decide := \<lambda>msg choices. None\<rparr>)
                          demo_lib ?name ?ident) = Inr None"
    using prompt_returns_the_choice
            [OF g [of "\<lambda>msg choices. None"] c [of "\<lambda>msg choices. None"] ne]
    by simp
  show ?thesis
    using g0 c0 d0 demo_read_both(1) demo_select(1) picked skipped cancelled by simp
qed

text \<open>C8. Leaving printed messages aside, the loop over the sources does, for each source in
  turn, one request and then one sleep of \<open>RATE_LIMIT_DELAY\<close> seconds, which is one second,
  and nothing else. So a call of \<open>get_book_data\<close> that Google Books does not answer requests
  Goodreads, sleeps, requests WorldCat and sleeps again, before the prompt if there is
  one.\<close>

theorem one_delay_after_each_fallback_call:
  "RATE_LIMIT_DELAY = 1
   \<and> effects (snd (search_sources W L srcs name ident acc)) =
     concat (map (\<lambda>src. [EGet (Fallback src) (source_url L src name ident),
                         ESleep RATE_LIMIT_DELAY]) srcs)
   \<and> (fst (fetch_google_books (BookEnricher_init key) W ident) = Inr None \<longrightarrow>
       (\<exists>tail. effects (snd (get_book_data (BookEnricher_init key) W L name ident)) =
          [EGet Primary (google_books_url (BookEnricher_init key) ident),
           EGet (Fallback GoodreadsSource) (goodreads_search_url L name ident),
           ESleep RATE_LIMIT_DELAY,
           EGet (Fallback WorldCatSource) (worldcat_search_url L ident),
           ESleep RATE_LIMIT_DELAY] @ tail
        \<and> (tail = [] \<or> (\<exists>msg choices. tail = [EPrompt msg choices]))))"
proof (intro conjI impI)
  show "RATE_LIMIT_DELAY = 1"
    by (simp add: RATE_LIMIT_DELAY_def)
next
  show "effects (snd (search_sources W L srcs name ident acc)) =
     concat (map (\<lambda>src. [EGet (Fallback src) (source_url L src name ident),
                         ESleep RATE_LIMIT_DELAY]) srcs)"
    by (rule search_sources_effects)
next
  let ?self = "BookEnricher_init key"
  assume g: "fst (fetch_google_books ?self W ident) = Inr None"
  obtain cands where c: "fst (search_sources W L (sources ?self) name ident []) = Inr cands"
    by (simp add: search_sources_fst)
  have s: "effects (snd (search_sources W L (sources ?self) name ident [])) =
      [EGet (Fallback GoodreadsSource) (goodreads_search_url L name ident),
       ESleep RATE_LIMIT_DELAY,
       EGet (Fallback WorldCatSource) (worldcat_search_url L ident),
       ESleep RATE_LIMIT_DELAY]"
    unfolding search_sources_effects by (simp add: BookEnricher_init_def)
  show "\<exists>tail. effects (snd (get_book_data ?self W L name ident)) =
          [EGet Primary (google_books_url ?self ident),
           EGet (Fallback GoodreadsSource) (goodreads_search_url L name ident),
           ESleep RATE_LIMIT_DELAY,
           EGet (Fallback WorldCatSource) (worldcat_search_url L ident),
           ESleep RATE_LIMIT_DELAY] @ tail
        \<and> (tail = [] \<or> (\<exists>msg choices. tail = [EPrompt msg choices]))"
  proof (cases "cands = []")
    case True
    then have "effects (snd (get_book_data ?self W L name ident)) =
          [EGet Primary (google_books_url ?self ident),
           EGet (Fallback GoodreadsSource) (goodreads_search_url L name ident),
           ESleep RATE_LIMIT_DELAY,
           EGet (Fallback WorldCatSource) (worldcat_search_url L ident),
           ESleep RATE_LIMIT_DELAY] @ []"
      using get_book_data_miss [OF g c] by (simp add: fetch_google_books_effects s)
    then show ?thesis by blast
  next
    case False
    then have "effects (snd (get_book_data ?self W L name ident)) =
          [EGet Primary (google_books_url ?self ident),
           EGet (Fallback GoodreadsSource) (goodreads_search_url L name ident),
           ESleep RATE_LIMIT_DELAY,
           EGet (Fallback WorldCatSource) (worldcat_search_url L ident),
           ESleep RATE_LIMIT_DELAY] @
          [EPrompt (prompt_message name) (build_choices cands)]"
      using get_book_data_miss [OF g c] by (simp add: fetch_google_books_effects s)
    then show ?thesis by blast
  qed
qed

theorem one_delay_after_each_fallback_call_witness:
  "fst (fetch_google_books (BookEnricher_init ''key'') demo_world ''111'') = Inr None
   \<and> (\<exists>tail. effects (snd (get_book_data (BookEnricher_init ''key'') demo_world demo_lib
                               ''A'' ''111'')) =
          [EGet Primary (google_books_url (BookEnricher_init ''key'') ''111''),
           EGet (Fallback GoodreadsSource) (goodreads_search_url demo_lib ''A'' ''111''),
           ESleep 1,
           EGet (Fallback WorldCatSource) (worldcat_search_url demo_lib ''111''),
           ESleep 1] @ tail)"
proof -
  have h: "fst (fetch_google_books (BookEnricher_init ''key'') demo_world ''111'') = Inr None"
    using demo_google_111 by (simp add: demo_self_def)
  note t = one_delay_after_each_fallback_call
             [of demo_world demo_lib "[]" "''A''" "''111''" "[]" "''key''"]
  have d: "RATE_LIMIT_DELAY = 1" using t by blast
  show ?thesis
    using h t unfolding d by blast
qed

text \<open>C9. Every candidate that Google Books, Goodreads or WorldCat produces for a query, and
  so every book \<open>get_book_data\<close> returns and every candidate in a choice it returns, has
  the identifier of the query in its \<open>isbn\<close> field.\<close>

theorem candidates_carry_query_isbn:
  "(\<forall>b. fst (fetch_google_books self W ident) = Inr (Some b) \<longrightarrow> isbn b = ident)
   \<and> (\<forall>xs. fst (GoodreadsSource_search W L name ident) = Inr xs \<longrightarrow> (\<forall>b\<in>set xs. isbn b = ident))
   \<and> (\<forall>xs. fst (WorldCatSource_search W L name ident) = Inr xs \<longrightarrow> (\<forall>b\<in>set xs. isbn b = ident))
   \<and> (\<forall>src xs. fst (search src W L name ident) = Inr xs \<longrightarrow> (\<forall>b\<in>set xs. isbn b = ident))
   \<and> (\<forall>b. fst (get_book_data self W L name ident) = Inr (Some (Book b)) \<longrightarrow> isbn b = ident)
   \<and> (\<forall>n b. fst (get_book_data self W L name ident) = Inr (Some (Choice n (Some b))) \<longrightarrow>
        isbn b = ident)"
proof (intro conjI allI impI)
  fix b assume "fst (fetch_google_books self W ident) = Inr (Some b)"
  then show "isbn b = ident" using fetch_google_books_value [of self W ident] by auto
next
  fix xs assume "fst (GoodreadsSource_search W L name ident) = Inr xs"
  then show "\<forall>b\<in>set xs. isbn b = ident"
    using GoodreadsSource_search_value [of W L name ident] by auto
next
  fix xs assume "fst (WorldCatSource_search W L name ident) = Inr xs"
  then show "\<forall>b\<in>set xs. isbn b = ident"
    using WorldCatSource_search_value [of W L name ident] by auto
next
  fix src xs assume "fst (search src W L name ident) = Inr xs"
  then show "\<forall>b\<in>set xs. isbn b = ident"
    using search_value [of src W L name ident] by auto
next
  fix b assume "fst (get_book_data self W L name ident) = Inr (Some (Book b))"
  then show "isbn b = ident" using get_book_data_value [of self W L name ident] by auto
next
  fix n b assume "fst (get_book_data self W L name ident) = Inr (Some (Choice n (Some b)))"
  then show "isbn b = ident" using get_book_data_value [of self W L name ident] by auto
qed

theorem candidates_carry_query_isbn_witness:
  "fst (fetch_google_books demo_self demo_world ''222'') = Inr (Some demo_book_1984)
   \<and> isbn demo_book_1984 = ''222''
   \<and> fst (GoodreadsSource_search demo_world demo_lib ''B'' ''111'') = Inr [demo_book_B]
   \<and> isbn demo_book_B = ''111''
   \<and> fst (WorldCatSource_search demo_world demo_lib ''C'' ''333'') = Inr [demo_book_C_worldcat]
   \<and> isbn demo_book_C_worldcat = ''333''
   \<and> fst (get_book_data demo_self demo_world demo_lib ''1984'' ''222'') =
       Inr (Some (Book demo_book_1984))
   \<and> fst (get_book_data demo_self demo_world demo_lib ''B'' ''111'') =
       Inr (Some (Choice ''Title B by Author B () - from goodreads'' (Some demo_book_B)))"
proof -
  have g: "fst (fetch_google_books demo_self demo_world ''222'') = Inr (Some demo_book_1984)"
    by (simp add: demo_google_222)
  note t = candidates_carry_query_isbn [of demo_self demo_world "''222''" demo_lib "''B''"]
  note u = candidates_carry_query_isbn [of demo_self demo_world "''111''" demo_lib "''B''"]
  note v = candidates_carry_query_isbn [of demo_self demo_world "''333''" demo_lib "''C''"]
  have "isbn demo_book_1984 = ''222''" using t g by blast
  moreover have "isbn demo_book_B = ''111''" using u demo_goodreads_B by fastforce
  moreover have "isbn demo_book_C_worldcat = ''333''" using v demo_worldcat_C by fastforce
  ultimately show ?thesis
    using g demo_goodreads_B demo_worldcat_C demo_get_book_data_B
    by (simp add: get_book_data_Book)
qed



end
